theory Spec2Isabelle
  imports Complex_Main "HOL-Library.Log_Nat"
begin

section \<open>Rows of the datastore\<close>

text \<open>
  The routes read and write rows of a hosted relational datastore. A row is a record of
  the columns the routes select. A key is a natural number; a nullable column is an
  \<open>option\<close> (\<open>None\<close> is SQL \<open>NULL\<close>, JavaScript \<open>null\<close>). The routes test a key column
  for truthiness (\<open>if (selection.mdm_id)\<close>): the test fails on \<open>null\<close> and on the key 0, and
  \<open>truthy\<close> lists the key that passes it. A handler is given the \<open>class_id\<close> of the
  caller's token as an option that is \<open>None\<close> when the value is falsy. The roll and
  hall-ticket numbers of a student are nullable strings.
  The \<open>status\<close> of a submission is only ever compared with \<open>'completed'\<close> or defaulted by
  \<open>status || 'pending'\<close>; a \<open>null\<close> status behaves as the empty string in both, and is
  modelled by it.
\<close>

type_synonym ident = nat

record student =
  s_id :: ident
  s_roll_no :: "string option"
  s_name :: string
  s_hall_ticket_number :: "string option"
  s_defaulter :: bool
  s_class_id :: "ident option"
  s_batch_id :: "ident option"
  s_batch_name :: "string option"

record subject =
  subj_id :: ident
  subj_name :: string
  subj_code :: string
  subj_type :: string
  subj_class_id :: "ident option"

record selection =
  sel_student_id :: ident
  mdm_id :: "ident option"
  oe_id :: "ident option"
  pe_id :: "ident option"
  mdm_faculty_id :: "ident option"
  oe_faculty_id :: "ident option"
  pe_faculty_id :: "ident option"

record submission =
  sub_student_id :: ident
  sub_subject_id :: ident
  submission_type_id :: ident
  status :: string

record submission_type =
  type_id :: ident
  type_name :: string

record class_row =
  c_id :: ident
  c_name :: string
  c_year :: string

record assignment =
  fs_faculty_id :: ident
  fs_subject_id :: "ident option"
  fs_batch_id :: "ident option"
  fs_class_id :: "ident option"

record datastore =
  classes :: "class_row list"
  students :: "student list"
  faculty_subjects :: "assignment list"
  subjects :: "subject list"
  student_subject_selection :: "selection list"
  student_submissions :: "submission list"
  submission_types :: "submission_type list"

text \<open>
  A call to the datastore answers \<open>{ data, error }\<close>. Which calls fail is an input of a
  request: an \<open>outage\<close> gives, for each call of a route, the error message it fails with.
  A read that succeeds is a filter of the table; the \<open>order\<close> clause of a read only
  permutes the rows, and the order of a table stands for it.
\<close>

datatype query =
    Read_students
  | Read_class_subjects
  | Read_selections
  | Read_elective_subjects
  | Read_submissions
  | Read_submission_types
  | Read_class
  | Read_assignments
  | Read_elective_students
  | Read_elective_submissions
  | Read_student
  | Delete_student
  | Insert_students

type_synonym outage = "query \<Rightarrow> string option"

definition truthy :: "ident option \<Rightarrow> ident list" where
  \<comment> \<open>\<open>if (key) xs.push(key)\<close> and \<open>.filter(Boolean)\<close>: the key, unless it is \<open>null\<close> or 0\<close>
  "truthy key = (case key of None \<Rightarrow> [] | Some i \<Rightarrow> if i = 0 then [] else [i])"

definition single :: "'a list \<Rightarrow> 'a option" where
  \<comment> \<open>\<open>.single()\<close>: the one row of the answer; any other number of rows is an error\<close>
  "single rows = (case rows of [r] \<Rightarrow> Some r | _ \<Rightarrow> None)"

definition read_students_of_class :: "datastore \<Rightarrow> ident \<Rightarrow> student list" where
  \<comment> \<open>\<open>from('students').eq('class_id', classId)\<close>\<close>
  "read_students_of_class ds classId = filter (\<lambda>s. s_class_id s = Some classId) (students ds)"

definition read_subjects_of_class :: "datastore \<Rightarrow> ident \<Rightarrow> subject list" where
  \<comment> \<open>\<open>from('subjects').eq('class_id', classId)\<close>\<close>
  "read_subjects_of_class ds classId = filter (\<lambda>x. subj_class_id x = Some classId) (subjects ds)"

definition read_subjects_in :: "datastore \<Rightarrow> ident list \<Rightarrow> subject list" where
  \<comment> \<open>\<open>from('subjects').in('id', ids)\<close>\<close>
  "read_subjects_in ds ids = filter (\<lambda>x. subj_id x \<in> set ids) (subjects ds)"

definition read_selections_of :: "datastore \<Rightarrow> ident list \<Rightarrow> selection list" where
  \<comment> \<open>\<open>from('student_subject_selection').in('student_id', studentIds)\<close>\<close>
  "read_selections_of ds studentIds =
     filter (\<lambda>r. sel_student_id r \<in> set studentIds) (student_subject_selection ds)"

definition read_submissions_of :: "datastore \<Rightarrow> ident list \<Rightarrow> submission list" where
  \<comment> \<open>\<open>from('student_submissions').in('student_id', studentIds)\<close>\<close>
  "read_submissions_of ds studentIds =
     filter (\<lambda>sub. sub_student_id sub \<in> set studentIds) (student_submissions ds)"

text \<open>
  A response is its HTTP status, the \<open>success\<close> flag of the body and the rest of the
  body: the \<open>error\<close> string, a \<open>message\<close> string, or the data of the route.
\<close>

datatype 'a body = ErrorMsg string | Message string | Data 'a

datatype 'a response = Response (http_status: nat) (success: bool) (content: "'a body")

section \<open>Numbers\<close>

text \<open>
  A JavaScript number is an IEEE 754 binary64 value. The counts of the routes are small
  integers, which binary64 holds exactly; the quotient and the product of
  \<open>Math.round((completed / total) * 100)\<close> are each rounded to the nearest binary64
  value, ties to the even significand. Numbers are modelled by the rationals they
  denote, and \<open>binary64\<close> rounds a rational to 53 significant bits (all values here are
  in the normal range, so exponent limits play no part). \<open>Math.round\<close> is exact: the
  nearest integer, a tie going up. A \<open>number\<close> is such a value, \<open>NaN\<close> or \<open>Infinity\<close>,
  which a division by zero gives; no operand here is negative.
\<close>

definition round_half_even :: "rat \<Rightarrow> int" where
  "round_half_even q =
     (let f = \<lfloor>q\<rfloor>; r = q - of_int f
      in if r < 1 / 2 then f else if 1 / 2 < r then f + 1 else if even f then f else f + 1)"

definition ilog2 :: "rat \<Rightarrow> int" where
  \<comment> \<open>for \<open>0 < x\<close>, the \<open>e\<close> with \<open>2 powi e \<le> x < 2 powi (e + 1)\<close>\<close>
  "ilog2 x = (if 1 \<le> x then bitlen \<lfloor>x\<rfloor> - 1 else - bitlen (\<lceil>1 / x\<rceil> - 1))"

definition binary64 :: "rat \<Rightarrow> rat" where
  "binary64 x =
     (if x = 0 then 0
      else let e = ilog2 \<bar>x\<bar> - 52
           in of_int (round_half_even (x / 2 powi e)) * 2 powi e)"

datatype number = NaN | Infinity | Finite rat

definition js_div :: "rat \<Rightarrow> rat \<Rightarrow> number" where
  \<comment> \<open>\<open>a / b\<close> for finite \<open>a \<ge> 0\<close> and \<open>b \<ge> 0\<close>\<close>
  "js_div a b = (if b = 0 then (if a = 0 then NaN else Infinity) else Finite (binary64 (a / b)))"

definition js_mul :: "number \<Rightarrow> rat \<Rightarrow> number" where
  \<comment> \<open>\<open>x * k\<close> for a finite \<open>k > 0\<close>\<close>
  "js_mul x k = (case x of NaN \<Rightarrow> NaN | Infinity \<Rightarrow> Infinity | Finite r \<Rightarrow> Finite (binary64 (r * k)))"

definition Math_round :: "number \<Rightarrow> number" where
  "Math_round x = (case x of NaN \<Rightarrow> NaN | Infinity \<Rightarrow> Infinity | Finite r \<Rightarrow> Finite (of_int \<lfloor>r + 1 / 2\<rfloor>))"

definition submissionPercentage :: "nat \<Rightarrow> nat \<Rightarrow> number" where
  \<comment> \<open>\<open>totalSubmissions > 0 ? Math.round((completedSubmissions / totalSubmissions) * 100) : 0\<close>\<close>
  "submissionPercentage completedSubmissions totalSubmissions =
     (if totalSubmissions > 0
      then Math_round (js_mul (js_div (of_nat completedSubmissions) (of_nat totalSubmissions)) 100)
      else Finite 0)"

definition rounded_percent :: "nat \<Rightarrow> nat \<Rightarrow> int" where
  \<comment> \<open>the integer that \<open>submissionPercentage\<close> gives, as lemma \<open>submissionPercentage_Finite\<close> shows\<close>
  "rounded_percent c t =
     (if t > 0 then \<lfloor>binary64 (binary64 (of_nat c / of_nat t) * 100) + 1 / 2\<rfloor> else 0)"

definition round_half_up_percent :: "nat \<Rightarrow> nat \<Rightarrow> int" where
  \<comment> \<open>the specification's \<open>round(100 * completed / total)\<close> on exact numbers, half up\<close>
  "round_half_up_percent c t = \<lfloor>100 * of_nat c / (of_nat t :: rat) + 1 / 2\<rfloor>"

section \<open>Looking up submission records\<close>

definition find_type :: "string \<Rightarrow> submission_type list \<Rightarrow> submission_type option" where
  \<comment> \<open>\<open>submissionTypes.find(t => t.name === n)\<close>; \<open>None\<close> is \<open>undefined\<close>\<close>
  "find_type n submissionTypes = List.find (\<lambda>t. type_name t = n) submissionTypes"

definition has_type :: "submission_type option \<Rightarrow> submission \<Rightarrow> bool" where
  \<comment> \<open>\<open>sub.submission_type_id === ty?.id\<close>: without a type the right side is \<open>undefined\<close>,
      which no column value equals\<close>
  "has_type ty sub = (case ty of None \<Rightarrow> False | Some t \<Rightarrow> submission_type_id sub = type_id t)"

definition find_submission :: "submission_type option \<Rightarrow> submission list \<Rightarrow> submission option" where
  \<comment> \<open>\<open>subs.find(sub => sub.submission_type_id === ty?.id)\<close>: the first match\<close>
  "find_submission ty subs = List.find (has_type ty) subs"

definition completed_item :: "submission option \<Rightarrow> nat" where
  \<comment> \<open>\<open>(x && x.status === 'completed' ? 1 : 0)\<close>\<close>
  "completed_item x = (case x of None \<Rightarrow> 0 | Some r \<Rightarrow> if status r = ''completed'' then 1 else 0)"

section \<open>The roster of a class teacher: \<open>GET /students\<close>\<close>

definition studentElectives :: "selection \<Rightarrow> ident list" where
  \<comment> \<open>the three pushes of a selection row, in the order mdm, oe, pe\<close>
  "studentElectives sel = truthy (mdm_id sel) @ truthy (oe_id sel) @ truthy (pe_id sel)"

definition electiveSubjectIds :: "selection list \<Rightarrow> ident list" where
  \<comment> \<open>the set of the ids that the selection rows refer to, as the list of its additions\<close>
  "electiveSubjectIds electiveSelections = concat (map studentElectives electiveSelections)"

definition studentElectiveMap :: "selection list \<Rightarrow> ident \<rightharpoonup> ident list" where
  \<comment> \<open>\<open>forEach\<close> row, \<open>map.set(selection.student_id, studentElectives)\<close>: a later row of the
      same student replaces an earlier one\<close>
  "studentElectiveMap electiveSelections =
     fold (\<lambda>sel m. m(sel_student_id sel \<mapsto> studentElectives sel)) electiveSelections Map.empty"

definition studentSubjects :: "subject list \<Rightarrow> subject list \<Rightarrow> (ident \<rightharpoonup> ident list) \<Rightarrow> student \<Rightarrow> subject list" where
  "studentSubjects classSubjects electiveSubjects electiveMap s =
     (let electives = (case electiveMap (s_id s) of None \<Rightarrow> [] | Some es \<Rightarrow> es)
      in classSubjects @ filter (\<lambda>es. subj_id es \<in> set electives) electiveSubjects)"

definition subject_counts ::
  "submission_type option \<Rightarrow> submission_type option \<Rightarrow> submission_type list \<Rightarrow> bool \<Rightarrow>
   submission list \<Rightarrow> subject \<Rightarrow> nat \<times> nat" where
  \<comment> \<open>the body of \<open>studentSubjects.forEach\<close>: \<open>(subjectTotal, subjectCompleted)\<close>\<close>
  "subject_counts taType cieType submissionTypes isDefaulter studentSubmissions subject =
     (let subjectSubmissions = filter (\<lambda>sub. sub_subject_id sub = subj_id subject) studentSubmissions
      in if subj_type subject = ''practical''
         then (1, completed_item (find_submission taType subjectSubmissions))
         else
           let subjectTotal = 2;
               subjectCompleted =
                 completed_item (find_submission taType subjectSubmissions) +
                 completed_item (find_submission cieType subjectSubmissions)
           in if isDefaulter
              then
                let defaulterType = find_type ''Defaulter work'' submissionTypes
                in (subjectTotal + 1,
                    subjectCompleted + completed_item (find_submission defaulterType subjectSubmissions))
              else (subjectTotal, subjectCompleted))"

definition student_counts ::
  "submission_type option \<Rightarrow> submission_type option \<Rightarrow> submission_type list \<Rightarrow> bool \<Rightarrow>
   submission list \<Rightarrow> subject list \<Rightarrow> nat \<times> nat" where
  \<comment> \<open>\<open>(totalSubmissions, completedSubmissions)\<close> after the \<open>forEach\<close>\<close>
  "student_counts taType cieType submissionTypes isDefaulter studentSubmissions subjs =
     fold (\<lambda>subject (totalSubmissions, completedSubmissions).
             let (subjectTotal, subjectCompleted) =
                   subject_counts taType cieType submissionTypes isDefaulter studentSubmissions subject
             in (totalSubmissions + subjectTotal, completedSubmissions + subjectCompleted))
          subjs (0, 0)"

definition roster_percentage ::
  "subject list \<Rightarrow> subject list \<Rightarrow> (ident \<rightharpoonup> ident list) \<Rightarrow> submission list \<Rightarrow>
   submission_type list \<Rightarrow> student \<Rightarrow> number" where
  \<comment> \<open>the \<open>submission_percentage\<close> that the callback of \<open>data.map\<close> gives student \<open>s\<close>\<close>
  "roster_percentage classSubjects electiveSubjects electiveMap submissions submissionTypes s =
     (let taType = find_type ''TA'' submissionTypes;
          cieType = find_type ''CIE'' submissionTypes;
          isDefaulter = s_defaulter s;
          studentSubmissions = filter (\<lambda>sub. sub_student_id sub = s_id s) submissions;
          subjs = studentSubjects classSubjects electiveSubjects electiveMap s
      in if length subjs = 0 then Finite 0
         else
           let (totalSubmissions, completedSubmissions) =
                 student_counts taType cieType submissionTypes isDefaulter studentSubmissions subjs
           in submissionPercentage completedSubmissions totalSubmissions)"

definition roster_students ::
  "outage \<Rightarrow> datastore \<Rightarrow> ident option \<Rightarrow> (student \<times> number) list response" where
  \<comment> \<open>the handler; a row of the answer is a student with its \<open>submission_percentage\<close>.
      Only a failure of the first read is thrown; the other reads log their error and go
      on with \<open>data || []\<close>\<close>
  "roster_students out ds class_id =
     (case class_id of
        None \<Rightarrow> Response 400 False
          (ErrorMsg ''Missing class_id in token. Please ensure your account is assigned to a class.'')
      | Some classId \<Rightarrow>
          (case out Read_students of
             Some msg \<Rightarrow> Response 500 False (ErrorMsg msg)
           | None \<Rightarrow>
               let data = read_students_of_class ds classId;
                   studentIds = map s_id data;
                   classSubjects =
                     (case out Read_class_subjects of
                        Some _ \<Rightarrow> []
                      | None \<Rightarrow> read_subjects_of_class ds classId);
                   electiveSelections =
                     (case out Read_selections of
                        Some _ \<Rightarrow> []
                      | None \<Rightarrow> read_selections_of ds studentIds);
                   electiveSubjects =
                     (if electiveSubjectIds electiveSelections = [] then []
                      else case out Read_elective_subjects of
                             Some _ \<Rightarrow> []
                           | None \<Rightarrow> read_subjects_in ds (electiveSubjectIds electiveSelections));
                   electiveMap = studentElectiveMap electiveSelections;
                   submissions =
                     (case out Read_submissions of
                        Some _ \<Rightarrow> []
                      | None \<Rightarrow> read_submissions_of ds studentIds);
                   submissionTypes =
                     (case out Read_submission_types of
                        Some _ \<Rightarrow> []
                      | None \<Rightarrow> submission_types ds)
               in Response 200 True
                    (Data (map (\<lambda>s. (s, roster_percentage classSubjects electiveSubjects electiveMap
                                          submissions submissionTypes s))
                               data))))"

section \<open>The export of a class: \<open>GET /class-data\<close>\<close>

definition status_or_pending :: "submission option \<Rightarrow> string" where
  \<comment> \<open>\<open>x?.status || 'pending'\<close>\<close>
  "status_or_pending x =
     (case x of None \<Rightarrow> ''pending'' | Some r \<Rightarrow> if status r = [] then ''pending'' else status r)"

record subject_status =
  subject_name :: string
  subject_code :: string
  subject_type :: string
  cie :: string
  ta :: string
  defaulter :: string

record export_student =
  ex_roll_no :: "string option"
  ex_name :: string
  ex_batch :: string
  ex_defaulter :: bool
  ex_submissions :: "ident \<rightharpoonup> subject_status"

record export_data =
  ex_class_name :: string
  ex_class_year :: string
  ex_students :: "export_student list"
  ex_subjects :: "(subject \<times> bool) list"

definition subject_entry ::
  "submission_type option \<Rightarrow> submission_type option \<Rightarrow> submission_type option \<Rightarrow>
   submission list \<Rightarrow> student \<Rightarrow> subject \<Rightarrow> subject_status" where
  \<comment> \<open>the value stored at \<open>subjectSubmissions[subject.id]\<close>\<close>
  "subject_entry taType cieType defaulterType submissions student subject =
     (let subs = filter (\<lambda>s. sub_student_id s = s_id student \<and> sub_subject_id s = subj_id subject)
                   submissions;
          taSubmission = find_submission taType subs;
          cieSubmission = find_submission cieType subs;
          defaulterSubmission = find_submission defaulterType subs
      in \<lparr> subject_name = subj_name subject,
           subject_code = subj_code subject,
           subject_type = subj_type subject,
           cie = (if subj_type subject = ''practical'' then ''N/A''
                  else status_or_pending cieSubmission),
           ta = status_or_pending taSubmission,
           defaulter = (if s_defaulter student \<and> subj_type subject \<noteq> ''practical''
                        then status_or_pending defaulterSubmission
                        else ''-'') \<rparr>)"

definition export_student_row ::
  "subject list \<Rightarrow> subject list \<Rightarrow> (ident \<rightharpoonup> ident list) \<Rightarrow> submission list \<Rightarrow>
   submission_type list \<Rightarrow> student \<Rightarrow> export_student" where
  \<comment> \<open>the callback of \<open>students.map\<close>; the object \<open>subjectSubmissions\<close> is a map from the
      subject's id, a later subject of the same id replacing an earlier one\<close>
  "export_student_row classSubjects electiveSubjects electiveMap submissions submissionTypes student =
     (let taType = find_type ''TA'' submissionTypes;
          cieType = find_type ''CIE'' submissionTypes;
          defaulterType = find_type ''Defaulter work'' submissionTypes;
          allSubjects = studentSubjects classSubjects electiveSubjects electiveMap student;
          subjectSubmissions =
            fold (\<lambda>subject m.
                    m(subj_id subject \<mapsto>
                        subject_entry taType cieType defaulterType submissions student subject))
                 allSubjects Map.empty
      in \<lparr> ex_roll_no = s_roll_no student,
           ex_name = s_name student,
           ex_batch = (case s_batch_name student of
                         None \<Rightarrow> ''-''
                       | Some n \<Rightarrow> if n = [] then ''-'' else n),
           ex_defaulter = s_defaulter student,
           ex_submissions = subjectSubmissions \<rparr>)"

definition class_data :: "outage \<Rightarrow> datastore \<Rightarrow> ident option \<Rightarrow> export_data response" where
  \<comment> \<open>the handler: every failing read is thrown and answered with 500\<close>
  "class_data out ds class_id_of_user =
     (case class_id_of_user of
        None \<Rightarrow> Response 400 False (ErrorMsg ''No class assigned to this teacher'')
      | Some class_id \<Rightarrow>
          (case out Read_class of
             Some msg \<Rightarrow> Response 500 False (ErrorMsg msg)
           | None \<Rightarrow>
          (case single (filter (\<lambda>c. c_id c = class_id) (classes ds)) of
             None \<Rightarrow> Response 500 False (ErrorMsg ''JSON object requested, multiple (or no) rows returned'')
           | Some classInfo \<Rightarrow>
          (case out Read_students of
             Some msg \<Rightarrow> Response 500 False (ErrorMsg msg)
           | None \<Rightarrow>
          (case out Read_class_subjects of
             Some msg \<Rightarrow> Response 500 False (ErrorMsg msg)
           | None \<Rightarrow>
          (case out Read_selections of
             Some msg \<Rightarrow> Response 500 False (ErrorMsg msg)
           | None \<Rightarrow>
               let studs = read_students_of_class ds class_id;
                   classSubjects = read_subjects_of_class ds class_id;
                   studentIds = map s_id studs;
                   electiveSelections = read_selections_of ds studentIds
               in
          (case (if electiveSubjectIds electiveSelections = [] then None
                 else out Read_elective_subjects) of
             Some msg \<Rightarrow> Response 500 False (ErrorMsg msg)
           | None \<Rightarrow>
          (case out Read_submissions of
             Some msg \<Rightarrow> Response 500 False (ErrorMsg msg)
           | None \<Rightarrow>
          (case out Read_submission_types of
             Some msg \<Rightarrow> Response 500 False (ErrorMsg msg)
           | None \<Rightarrow>
               let electiveSubjects =
                     (if electiveSubjectIds electiveSelections = [] then []
                      else read_subjects_in ds (electiveSubjectIds electiveSelections));
                   electiveMap = studentElectiveMap electiveSelections;
                   submissions = read_submissions_of ds studentIds;
                   submissionTypes = submission_types ds
               in Response 200 True
                    (Data \<lparr> ex_class_name = c_name classInfo,
                            ex_class_year = c_year classInfo,
                            ex_students =
                              map (export_student_row classSubjects electiveSubjects electiveMap
                                     submissions submissionTypes) studs,
                            ex_subjects =
                              map (\<lambda>x. (x, False)) classSubjects @
                              map (\<lambda>x. (x, True)) electiveSubjects \<rparr>))))))))))"

section \<open>The students of a faculty: \<open>GET /students\<close> of the faculty router\<close>

text \<open>
  A row of the answer spreads the columns of the student and copies the id, name, code
  and type of the subject; the model keeps the two rows themselves, so the source's
  \<open>student.subject_type\<close> is \<open>subj_type (row_subject student)\<close> and its
  \<open>student.defaulter\<close> is \<open>s_defaulter (row_student student)\<close>.
\<close>

record faculty_row =
  row_student :: student
  row_subject :: subject
  ta_status :: string
  cie_status :: string
  defaulter_status :: string

record scored_row = faculty_row +
  submission_percentage :: number
  total_submissions :: nat
  completed_submissions :: nat

definition student_subject_row ::
  "submission_type option \<Rightarrow> submission_type option \<Rightarrow> submission_type option \<Rightarrow>
   submission list \<Rightarrow> student \<Rightarrow> subject \<Rightarrow> faculty_row" where
  \<comment> \<open>the block the route repeats for an assignment and for each of the three elective slots\<close>
  "student_subject_row taType cieType defaulterType submissions student subject =
     (let studentSubjectSubmissions =
            filter (\<lambda>sub. sub_student_id sub = s_id student \<and> sub_subject_id sub = subj_id subject)
              submissions;
          taSubmission = find_submission taType studentSubjectSubmissions;
          cieSubmission = find_submission cieType studentSubjectSubmissions;
          defaulterSubmission = find_submission defaulterType studentSubjectSubmissions
      in \<lparr> row_student = student,
           row_subject = subject,
           ta_status = status_or_pending taSubmission,
           cie_status = status_or_pending cieSubmission,
           defaulter_status = status_or_pending defaulterSubmission \<rparr>)"

definition row_counts :: "faculty_row \<Rightarrow> nat \<times> nat" where
  \<comment> \<open>\<open>(totalSubmissions, completedSubmissions)\<close> of the callback of \<open>studentsWithSubjects.map\<close>\<close>
  "row_counts student =
     (if subj_type (row_subject student) = ''practical''
      then (1, if ta_status student = ''completed'' then 1 else 0)
      else
        let totalSubmissions = 2;
            completedSubmissions =
              (if cie_status student = ''completed'' then 1 else 0) +
              (if ta_status student = ''completed'' then 1 else 0)
        in if s_defaulter (row_student student)
           then (totalSubmissions + 1,
                 completedSubmissions + (if defaulter_status student = ''completed'' then 1 else 0))
           else (totalSubmissions, completedSubmissions))"

definition with_percentage :: "faculty_row \<Rightarrow> scored_row" where
  "with_percentage student =
     (let (totalSubmissions, completedSubmissions) = row_counts student
      in faculty_row.extend student
           (scored_row.fields (submissionPercentage completedSubmissions totalSubmissions)
              totalSubmissions completedSubmissions))"

definition assignment_subject :: "datastore \<Rightarrow> assignment \<Rightarrow> subject option" where
  \<comment> \<open>the joined \<open>assignment.subjects\<close>: the subject row the assignment refers to, or \<open>null\<close>\<close>
  "assignment_subject ds a =
     (case fs_subject_id a of
        None \<Rightarrow> None
      | Some i \<Rightarrow> List.find (\<lambda>x. subj_id x = i) (subjects ds))"

definition assigned_rows ::
  "datastore \<Rightarrow> submission_type option \<Rightarrow> submission_type option \<Rightarrow> submission_type option \<Rightarrow>
   submission list \<Rightarrow> assignment list \<Rightarrow> student list \<Rightarrow> faculty_row list" where
  \<comment> \<open>\<open>allStudents.forEach\<close> over \<open>assignments.forEach\<close>\<close>
  "assigned_rows ds taType cieType defaulterType submissions assignments allStudents =
     concat (map (\<lambda>student.
       concat (map (\<lambda>a.
         let isApplicable =
               (fs_class_id a = s_class_id student \<and>
                (fs_batch_id a = None \<or> fs_batch_id a = s_batch_id student))
         in case assignment_subject ds a of
              None \<Rightarrow> []
            | Some subject \<Rightarrow>
                if isApplicable
                then [student_subject_row taType cieType defaulterType submissions student subject]
                else [])
         assignments))
       allStudents)"

definition slot_row ::
  "submission_type option \<Rightarrow> submission_type option \<Rightarrow> submission_type option \<Rightarrow>
   submission list \<Rightarrow> subject list \<Rightarrow> ident \<Rightarrow> student \<Rightarrow>
   ident option \<Rightarrow> ident option \<Rightarrow> faculty_row list" where
  \<comment> \<open>one elective slot: \<open>if (slot_faculty_id === facultyId && slot_id)\<close>, then the subject
      of \<open>subjectMap\<close> (the last fetched row of that id), if there is one\<close>
  "slot_row taType cieType defaulterType electiveSubmissions electiveSubjects facultyId student
     slot_faculty_id slot_id =
     (if slot_faculty_id = Some facultyId
      then concat (map (\<lambda>i.
             case List.find (\<lambda>x. subj_id x = i) (rev electiveSubjects) of
               None \<Rightarrow> []
             | Some subject \<Rightarrow>
                 [student_subject_row taType cieType defaulterType electiveSubmissions
                    student subject])
             (truthy slot_id))
      else [])"

definition elective_rows ::
  "submission_type option \<Rightarrow> submission_type option \<Rightarrow> submission_type option \<Rightarrow>
   submission list \<Rightarrow> subject list \<Rightarrow> selection list \<Rightarrow> ident \<Rightarrow> student list \<Rightarrow>
   faculty_row list" where
  \<comment> \<open>\<open>electiveStudents.forEach\<close>: the first selection row of the student, its three slots\<close>
  "elective_rows taType cieType defaulterType electiveSubmissions electiveSubjects
     electiveSelections facultyId electiveStudents =
     concat (map (\<lambda>student.
       case List.find (\<lambda>r. sel_student_id r = s_id student) electiveSelections of
         None \<Rightarrow> []
       | Some sel \<Rightarrow>
           slot_row taType cieType defaulterType electiveSubmissions electiveSubjects facultyId
             student (mdm_faculty_id sel) (mdm_id sel) @
           slot_row taType cieType defaulterType electiveSubmissions electiveSubjects facultyId
             student (oe_faculty_id sel) (oe_id sel) @
           slot_row taType cieType defaulterType electiveSubmissions electiveSubjects facultyId
             student (pe_faculty_id sel) (pe_id sel))
       electiveStudents)"

definition faculty_elective_ids :: "ident \<Rightarrow> selection list \<Rightarrow> ident list" where
  \<comment> \<open>\<open>electiveSubjectIds\<close>: the slots of the selections that this faculty grades\<close>
  "faculty_elective_ids facultyId electiveSelections =
     concat (map (\<lambda>sel.
       (if mdm_faculty_id sel = Some facultyId then truthy (mdm_id sel) else []) @
       (if oe_faculty_id sel = Some facultyId then truthy (oe_id sel) else []) @
       (if pe_faculty_id sel = Some facultyId then truthy (pe_id sel) else []))
       electiveSelections)"

definition faculty_students :: "outage \<Rightarrow> datastore \<Rightarrow> ident \<Rightarrow> scored_row list response" where
  \<comment> \<open>the handler: every failing read is thrown and answered with 500; the reads of
      students and submissions are only made for a non-empty list of ids\<close>
  "faculty_students out ds facultyId =
     (case out Read_assignments of
        Some msg \<Rightarrow> Response 500 False (ErrorMsg msg)
      | None \<Rightarrow>
          let assignments = filter (\<lambda>a. fs_faculty_id a = facultyId) (faculty_subjects ds);
              classIds = remdups (concat (map (\<lambda>a. truthy (fs_class_id a)) assignments))
          in
     (case (if classIds = [] then None else out Read_students) of
        Some msg \<Rightarrow> Response 500 False (ErrorMsg msg)
      | None \<Rightarrow>
          let allStudents =
                (if classIds = [] then []
                 else filter (\<lambda>s. case s_class_id s of None \<Rightarrow> False | Some c \<Rightarrow> c \<in> set classIds)
                        (students ds));
              allStudentIds = map s_id allStudents
          in
     (case (if allStudentIds = [] then None else out Read_submissions) of
        Some msg \<Rightarrow> Response 500 False (ErrorMsg msg)
      | None \<Rightarrow>
     (case out Read_submission_types of
        Some msg \<Rightarrow> Response 500 False (ErrorMsg msg)
      | None \<Rightarrow>
     (case out Read_selections of
        Some msg \<Rightarrow> Response 500 False (ErrorMsg msg)
      | None \<Rightarrow>
          let submissions =
                (if allStudentIds = [] then []
                 else read_submissions_of ds allStudentIds);
              submissionTypes = submission_types ds;
              taType = find_type ''TA'' submissionTypes;
              cieType = find_type ''CIE'' submissionTypes;
              defaulterType = find_type ''Defaulter work'' submissionTypes;
              studentsWithSubjects =
                assigned_rows ds taType cieType defaulterType submissions assignments allStudents;
              electiveSelections =
                filter (\<lambda>r. mdm_faculty_id r = Some facultyId \<or> oe_faculty_id r = Some facultyId \<or>
                             pe_faculty_id r = Some facultyId)
                  (student_subject_selection ds);
              electiveStudentIds = remdups (map sel_student_id electiveSelections)
          in
            if electiveStudentIds = []
            then Response 200 True (Data (map with_percentage studentsWithSubjects))
            else
     (case out Read_elective_students of
        Some msg \<Rightarrow> Response 500 False (ErrorMsg msg)
      | None \<Rightarrow>
     (case out Read_elective_subjects of
        Some msg \<Rightarrow> Response 500 False (ErrorMsg msg)
      | None \<Rightarrow>
     (case out Read_elective_submissions of
        Some msg \<Rightarrow> Response 500 False (ErrorMsg msg)
      | None \<Rightarrow>
          let electiveStudents = filter (\<lambda>s. s_id s \<in> set electiveStudentIds) (students ds);
              electiveSubjects =
                read_subjects_in ds (faculty_elective_ids facultyId electiveSelections);
              electiveSubmissions = read_submissions_of ds electiveStudentIds
          in Response 200 True
               (Data (map with_percentage
                        (studentsWithSubjects @
                         elective_rows taType cieType defaulterType electiveSubmissions
                           electiveSubjects electiveSelections facultyId electiveStudents)))))))))))"

section \<open>Removing a student: \<open>DELETE /student/:id\<close>\<close>

definition delete_student ::
  "outage \<Rightarrow> datastore \<Rightarrow> ident option \<Rightarrow> ident option \<Rightarrow> unit response \<times> datastore" where
  \<comment> \<open>the handler, from the \<open>id\<close> of the path and the \<open>class_id\<close> of the caller's token
      (\<open>None\<close> when falsy), to the response and the datastore it leaves\<close>
  "delete_student out ds id_param class_id_of_user =
     (case (id_param, class_id_of_user) of
        (Some i, Some classId) \<Rightarrow>
          (case (if out Read_student = None
                 then single (filter (\<lambda>s. s_id s = i) (students ds)) else None) of
             None \<Rightarrow> (Response 404 False (ErrorMsg ''Student not found''), ds)
           | Some student \<Rightarrow>
               if s_class_id student \<noteq> Some classId
               then (Response 403 False (ErrorMsg ''Unauthorized to delete this student''), ds)
               else
                 (case out Delete_student of
                    Some msg \<Rightarrow> (Response 500 False (ErrorMsg msg), ds)
                  | None \<Rightarrow>
                      (Response 200 True (Message ''Student deleted successfully''),
                       ds\<lparr>students := filter (\<lambda>s. s_id s \<noteq> i) (students ds)\<rparr>)))
      | _ \<Rightarrow> (Response 400 False (ErrorMsg ''Missing student ID or class ID''), ds))"

section \<open>Importing students from a sheet: \<open>POST /import-students\<close>\<close>
















section \<open>The record of a required item\<close>

definition first_record ::
  "submission list \<Rightarrow> ident \<Rightarrow> ident \<Rightarrow> submission_type option \<Rightarrow> submission option" where
  \<comment> \<open>the record that a lookup by (student, subject, submission type) finds in the fetched
      list: the first one of that key, and none for a type that is \<open>undefined\<close>\<close>
  "first_record submissions sid subjid ty =
     (case ty of
        None \<Rightarrow> None
      | Some t \<Rightarrow>
          List.find (\<lambda>r. sub_student_id r = sid \<and> sub_subject_id r = subjid \<and>
                          submission_type_id r = type_id t) submissions)"

section \<open>Duplicates of an import\<close>



section \<open>The answers when a submission type is missing\<close>

text \<open>
  What the claim about a missing submission type says of the answers of the roster and
  of the export, written out item by item: the definitions of this section are not taken
  from the code, they state what the code is compared with. An item is named by the
  student, the subject and the name of its submission type.
\<close>

definition applicable_subjects :: "datastore \<Rightarrow> ident \<Rightarrow> student \<Rightarrow> subject list" where
  \<comment> \<open>the subjects that the roster and the export compute for a student, from the rows that
      their reads return\<close>
  "applicable_subjects ds classId s =
     (let electiveSelections = read_selections_of ds (map s_id (read_students_of_class ds classId))
      in studentSubjects (read_subjects_of_class ds classId)
           (read_subjects_in ds (electiveSubjectIds electiveSelections))
           (studentElectiveMap electiveSelections) s)"







section \<open>Example data\<close>

text \<open>A small class, used to instantiate the theorems below.\<close>

definition ta_type :: submission_type where
  "ta_type = \<lparr>type_id = 1, type_name = ''TA''\<rparr>"

definition cie_type :: submission_type where
  "cie_type = \<lparr>type_id = 2, type_name = ''CIE''\<rparr>"

definition defaulter_type :: submission_type where
  "defaulter_type = \<lparr>type_id = 3, type_name = ''Defaulter work''\<rparr>"

definition alice :: student where
  "alice = \<lparr>s_id = 1, s_roll_no = Some ''101'', s_name = ''Alice'',
             s_hall_ticket_number = Some ''H101'',
             s_defaulter = False, s_class_id = Some 10, s_batch_id = None, s_batch_name = None\<rparr>"

definition bob :: student where
  "bob = \<lparr>s_id = 2, s_roll_no = Some ''102'', s_name = ''Bob'',
           s_hall_ticket_number = Some ''H102'',
           s_defaulter = True, s_class_id = Some 10, s_batch_id = None, s_batch_name = None\<rparr>"

definition maths :: subject where
  "maths = \<lparr>subj_id = 1, subj_name = ''Maths'', subj_code = ''MA101'', subj_type = ''theory'',
             subj_class_id = Some 10\<rparr>"

definition physics_lab :: subject where
  "physics_lab = \<lparr>subj_id = 2, subj_name = ''Physics Lab'', subj_code = ''PH151'',
                   subj_type = ''practical'', subj_class_id = Some 10\<rparr>"

definition robotics :: subject where
  "robotics = \<lparr>subj_id = 3, subj_name = ''Robotics'', subj_code = ''MD201'', subj_type = ''MDM'',
                subj_class_id = None\<rparr>"

definition bob_selection :: selection where
  "bob_selection = \<lparr>sel_student_id = 2, mdm_id = Some 3, oe_id = None, pe_id = None,
                     mdm_faculty_id = Some 7, oe_faculty_id = None, pe_faculty_id = None\<rparr>"

definition class_of_two :: datastore where
  "class_of_two =
     \<lparr>classes = [\<lparr>c_id = 10, c_name = ''SE-A'', c_year = ''2''\<rparr>],
      students = [alice, bob],
      faculty_subjects = [],
      subjects = [maths, physics_lab, robotics],
      student_subject_selection = [bob_selection],
      student_submissions = [],
      submission_types = [ta_type, cie_type, defaulter_type]\<rparr>"

definition class_without_subjects :: datastore where
  "class_without_subjects = class_of_two\<lparr>subjects := [], student_subject_selection := []\<rparr>"

definition no_outage :: outage where
  "no_outage = (\<lambda>_. None)"

definition without_ta :: datastore where
  "without_ta = class_of_two\<lparr>submission_types := [cie_type, defaulter_type]\<rparr>"

definition alice_maths_ta :: submission where
  "alice_maths_ta = \<lparr>sub_student_id = 1, sub_subject_id = 1, submission_type_id = 1, status = ''completed''\<rparr>"

definition bob_maths_ta_cie :: "submission list" where
  "bob_maths_ta_cie =
     [\<lparr>sub_student_id = 2, sub_subject_id = 1, submission_type_id = 1, status = ''completed''\<rparr>,
      \<lparr>sub_student_id = 2, sub_subject_id = 1, submission_type_id = 2, status = ''completed''\<rparr>]"

definition alice_maths_ta_submitted :: submission where
  "alice_maths_ta_submitted =
     \<lparr>sub_student_id = 1, sub_subject_id = 1, submission_type_id = 1, status = ''submitted''\<rparr>"









definition twenty_theory :: "subject list" where
  "twenty_theory =
     map (\<lambda>i. \<lparr>subj_id = i, subj_name = ''Theory'', subj_code = ''TH'', subj_type = ''theory'',
                subj_class_id = Some 10\<rparr>) [1..<21]"

definition twenty_three_completed :: "submission list" where
  "twenty_three_completed =
     map (\<lambda>i. \<lparr>sub_student_id = 1, sub_subject_id = i, submission_type_id = 1,
                status = ''completed''\<rparr>) [1..<21] @
     map (\<lambda>i. \<lparr>sub_student_id = 1, sub_subject_id = i, submission_type_id = 2,
                status = ''completed''\<rparr>) [1..<4]"

definition class_of_twenty_subjects :: datastore where
  "class_of_twenty_subjects =
     \<lparr>classes = [\<lparr>c_id = 10, c_name = ''SE-A'', c_year = ''2''\<rparr>],
      students = [alice],
      faculty_subjects = [],
      subjects = twenty_theory,
      student_subject_selection = [],
      student_submissions = twenty_three_completed,
      submission_types = [ta_type, cie_type, defaulter_type]\<rparr>"

definition class_elective :: subject where
  \<comment> \<open>an elective that is one of the class's own subjects, as \<open>POST /subjects/assign\<close> stores
      a subject of any type with the \<open>class_id\<close> of the caller\<close>
  "class_elective = \<lparr>subj_id = 3, subj_name = ''Robotics'', subj_code = ''MD201'', subj_type = ''MDM'',
                      subj_class_id = Some 10\<rparr>"

definition class_with_elective :: datastore where
  "class_with_elective = class_of_two\<lparr>subjects := [maths, physics_lab, class_elective]\<rparr>"

definition without_ta_submitted :: datastore where
  "without_ta_submitted = without_ta\<lparr>student_submissions := alice_maths_ta # bob_maths_ta_cie\<rparr>"

definition unnumbered :: subject where
  \<comment> \<open>a subject whose key is 0\<close>
  "unnumbered = \<lparr>subj_id = 0, subj_name = ''Seminar'', subj_code = ''OE000'', subj_type = ''OE'',
                  subj_class_id = None\<rparr>"

definition class_with_key_zero :: datastore where
  "class_with_key_zero =
     class_of_two\<lparr>subjects := [maths, physics_lab, robotics, unnumbered],
                   student_subject_selection := [bob_selection\<lparr>oe_id := Some 0\<rparr>]\<rparr>"

section \<open>Rounding to binary64\<close>

text \<open>
  \<open>ilog2\<close> is the binary exponent of a positive rational, so the result of \<open>binary64\<close>
  is an integer of 53 bits times a power of two (lemma \<open>binary64_significand\<close>), within
  half a unit in the last place of the argument (lemma \<open>binary64_error\<close>).
\<close>

lemma powi_nat: "0 \<le> k \<Longrightarrow> (2::rat) powi k = 2 ^ nat k"
  by (simp add: power_int_def)

lemma powi_neg: "0 \<le> k \<Longrightarrow> (2::rat) powi (- k) = 1 / 2 ^ nat k"
  by (cases "k = 0") (simp_all add: power_int_def field_simps)

lemma ilog2_lower: assumes "0 < x" shows "2 powi ilog2 x \<le> x"
proof (cases "1 \<le> x")
  case True
  then have n: "0 < \<lfloor>x\<rfloor>" by linarith
  have b1: "1 \<le> bitlen \<lfloor>x\<rfloor>" using n by (simp add: bitlen_alt_def)
  from bitlen_bounds[OF n] have "2 ^ nat (bitlen \<lfloor>x\<rfloor> - 1) \<le> \<lfloor>x\<rfloor>" by simp
  then have "(of_int (2 ^ nat (bitlen \<lfloor>x\<rfloor> - 1)) :: rat) \<le> of_int \<lfloor>x\<rfloor>"
    by (simp only: of_int_le_iff)
  also have "\<dots> \<le> x" by simp
  finally have "(2::rat) ^ nat (bitlen \<lfloor>x\<rfloor> - 1) \<le> x" by simp
  moreover have "(2::rat) powi (bitlen \<lfloor>x\<rfloor> - 1) = 2 ^ nat (bitlen \<lfloor>x\<rfloor> - 1)"
    using b1 by (simp add: power_int_def)
  ultimately show ?thesis using True by (simp add: ilog2_def)
next
  case False
  then have x1: "x < 1" by simp
  define y where "y = 1 / x"
  have y1: "1 < y" using assms x1 by (simp add: y_def)
  then have c2: "2 \<le> \<lceil>y\<rceil>" by linarith
  then have n: "0 < \<lceil>y\<rceil> - 1" by simp
  define k where "k = bitlen (\<lceil>y\<rceil> - 1)"
  have k0: "0 \<le> k" by (simp add: k_def bitlen_nonneg)
  from bitlen_bounds[OF n] have "\<lceil>y\<rceil> - 1 < 2 ^ nat k" by (simp add: k_def)
  then have "\<lceil>y\<rceil> \<le> 2 ^ nat k" by simp
  then have "y \<le> 2 ^ nat k" using ceiling_le_iff[of y "2 ^ nat k"] by simp
  then have "1 / x \<le> 2 ^ nat k" by (simp add: y_def)
  then have "1 \<le> 2 ^ nat k * x" using assms by (simp add: field_simps)
  then have "1 / 2 ^ nat k \<le> x" by (simp add: field_simps)
  moreover have "(2::rat) powi (- k) = 1 / 2 ^ nat k"
    using k0 by (rule powi_neg)
  ultimately show ?thesis using False by (simp add: ilog2_def y_def k_def)
qed

lemma ilog2_upper: assumes "0 < x" shows "x < 2 powi (ilog2 x + 1)"
proof (cases "1 \<le> x")
  case True
  then have n: "0 < \<lfloor>x\<rfloor>" by linarith
  have b1: "1 \<le> bitlen \<lfloor>x\<rfloor>" using n by (simp add: bitlen_alt_def)
  from bitlen_bounds[OF n] have "\<lfloor>x\<rfloor> < 2 ^ nat (bitlen \<lfloor>x\<rfloor>)" by simp
  then have "\<lfloor>x\<rfloor> + 1 \<le> 2 ^ nat (bitlen \<lfloor>x\<rfloor>)" by simp
  then have "(of_int (\<lfloor>x\<rfloor> + 1) :: rat) \<le> of_int (2 ^ nat (bitlen \<lfloor>x\<rfloor>))"
    by (simp only: of_int_le_iff)
  moreover have "x < of_int (\<lfloor>x\<rfloor> + 1)" by linarith
  ultimately have "x < 2 ^ nat (bitlen \<lfloor>x\<rfloor>)" by simp
  moreover have "(2::rat) powi (bitlen \<lfloor>x\<rfloor>) = 2 ^ nat (bitlen \<lfloor>x\<rfloor>)"
    using b1 by (simp add: power_int_def)
  ultimately show ?thesis using True by (simp add: ilog2_def)
next
  case False
  then have x1: "x < 1" by simp
  define y where "y = 1 / x"
  have y1: "1 < y" using assms x1 by (simp add: y_def)
  have y0: "0 < y" using y1 by simp
  then have c2: "2 \<le> \<lceil>y\<rceil>" using y1 by linarith
  then have n: "0 < \<lceil>y\<rceil> - 1" by simp
  define k where "k = bitlen (\<lceil>y\<rceil> - 1)"
  have k1: "1 \<le> k" using n by (simp add: k_def bitlen_alt_def)
  from bitlen_bounds[OF n] have "2 ^ nat (k - 1) \<le> \<lceil>y\<rceil> - 1" by (simp add: k_def)
  then have "(of_int (2 ^ nat (k - 1)) :: rat) \<le> of_int (\<lceil>y\<rceil> - 1)" by (simp only: of_int_le_iff)
  moreover have "of_int (\<lceil>y\<rceil> - 1) < y" by linarith
  ultimately have "2 ^ nat (k - 1) < y" by simp
  then have "2 ^ nat (k - 1) < 1 / x" by (simp add: y_def)
  then have "2 ^ nat (k - 1) * x < 1" using assms by (simp add: field_simps)
  then have "x < 1 / 2 ^ nat (k - 1)" by (simp add: field_simps)
  moreover have "(2::rat) powi (- k + 1) = 1 / 2 ^ nat (k - 1)"
  proof -
    have "(2::rat) powi (- k + 1) = 2 powi (- (k - 1))" by simp
    also have "\<dots> = 1 / 2 ^ nat (k - 1)" using k1 by (intro powi_neg) simp
    finally show ?thesis .
  qed
  ultimately show ?thesis using False by (simp add: ilog2_def y_def k_def)
qed

lemma round_half_even_error: "\<bar>of_int (round_half_even q) - q\<bar> \<le> 1 / 2"
proof -
  have "of_int \<lfloor>q\<rfloor> \<le> q" "q < of_int \<lfloor>q\<rfloor> + 1" by linarith+
  then show ?thesis by (auto simp: round_half_even_def Let_def)
qed

lemma round_half_even_nonneg: "0 \<le> q \<Longrightarrow> 0 \<le> round_half_even q"
  by (auto simp: round_half_even_def Let_def)


lemma round_half_even_floor: "\<lfloor>q\<rfloor> \<le> round_half_even q \<and> round_half_even q \<le> \<lfloor>q\<rfloor> + 1"
  by (simp add: round_half_even_def Let_def)

lemma binary64_significand:
  assumes "0 < x"
  shows "\<exists>m. binary64 x = of_int m * 2 powi (ilog2 x - 52) \<and> 2 ^ 52 \<le> m \<and> m \<le> 2 ^ 53"
proof -
  define p :: rat where "p = 2 powi (ilog2 x - 52)"
  define q where "q = x / p"
  have p0: "0 < p" by (simp add: p_def)
  have p52: "p * 2 ^ 52 = 2 powi ilog2 x"
  proof -
    have "p = 2 powi ilog2 x / 2 powi 52" unfolding p_def by (rule power_int_diff) simp
    then show ?thesis by simp
  qed
  have p53: "p * 2 ^ 53 = 2 powi (ilog2 x + 1)"
  proof -
    have "(2::rat) powi (ilog2 x + 1) = 2 powi ilog2 x * 2 powi 1" by (rule power_int_add) simp
    then show ?thesis using p52 by simp
  qed
  have "p * 2 ^ 52 \<le> x" using ilog2_lower[OF assms] p52 by simp
  then have lo: "2 ^ 52 \<le> q" using p0 by (simp add: q_def pos_le_divide_eq mult.commute)
  have "x < p * 2 ^ 53" using ilog2_upper[OF assms] p53 by simp
  then have hi: "q < 2 ^ 53" using p0 by (simp add: q_def pos_divide_less_eq mult.commute)
  have f1: "2 ^ 52 \<le> \<lfloor>q\<rfloor>"
  proof -
    have "(of_int (2 ^ 52) :: rat) \<le> q" using lo by simp
    then show ?thesis by (simp only: le_floor_iff)
  qed
  have f2: "\<lfloor>q\<rfloor> < 2 ^ 53"
  proof -
    have "q < (of_int (2 ^ 53) :: rat)" using hi by simp
    then show ?thesis by (simp only: floor_less_iff)
  qed
  have "2 ^ 52 \<le> round_half_even q" "round_half_even q \<le> 2 ^ 53"
    using round_half_even_floor[of q] f1 f2 by linarith+
  moreover have "binary64 x = of_int (round_half_even q) * p"
    using assms by (simp add: binary64_def Let_def p_def q_def)
  ultimately show ?thesis unfolding p_def by blast
qed

lemma binary64_zero: "binary64 0 = 0"
  by (simp add: binary64_def)

lemma binary64_nonneg: assumes "0 \<le> x" shows "0 \<le> binary64 x"
proof (cases "x = 0")
  case True
  then show ?thesis by (simp add: binary64_def)
next
  case False
  define p :: rat where "p = 2 powi (ilog2 \<bar>x\<bar> - 52)"
  have p0: "0 < p" by (simp add: p_def)
  have "0 \<le> x / p" using assms p0 by simp
  then have "0 \<le> round_half_even (x / p)" by (rule round_half_even_nonneg)
  then have "0 \<le> (of_int (round_half_even (x / p)) :: rat) * p" using p0 by simp
  then show ?thesis using False by (simp add: binary64_def Let_def p_def)
qed

lemma binary64_error: assumes "0 \<le> x" shows "\<bar>binary64 x - x\<bar> \<le> x / 2 ^ 53"
proof (cases "x = 0")
  case True
  then show ?thesis by (simp add: binary64_def)
next
  case False
  then have x0: "0 < x" using assms by simp
  define p :: rat where "p = 2 powi (ilog2 x - 52)"
  define m :: rat where "m = of_int (round_half_even (x / p))"
  have p0: "0 < p" by (simp add: p_def)
  have b: "binary64 x = m * p" using x0 by (simp add: binary64_def Let_def p_def m_def)
  have "\<bar>m - x / p\<bar> \<le> 1 / 2" unfolding m_def by (rule round_half_even_error)
  then have "\<bar>m - x / p\<bar> * p \<le> 1 / 2 * p" using p0 by (simp only: mult_le_cancel_right_pos)
  moreover have "\<bar>m - x / p\<bar> * p = \<bar>m * p - x\<bar>"
  proof -
    have "\<bar>m - x / p\<bar> * p = \<bar>m - x / p\<bar> * \<bar>p\<bar>" using p0 by simp
    also have "\<dots> = \<bar>(m - x / p) * p\<bar>" by (simp only: abs_mult)
    also have "(m - x / p) * p = m * p - x" using p0 by (simp add: field_simps)
    finally show ?thesis .
  qed
  ultimately have e1: "\<bar>m * p - x\<bar> \<le> p / 2" by simp
  have "p = 2 powi ilog2 x / 2 powi 52" unfolding p_def by (rule power_int_diff) simp
  then have "p = 2 powi ilog2 x / 2 ^ 52" by simp
  moreover have "2 powi ilog2 x \<le> x" using x0 by (rule ilog2_lower)
  ultimately have "p \<le> x / 2 ^ 52" by (simp add: divide_right_mono)
  then have "p / 2 \<le> x / 2 ^ 53" by simp
  with e1 b show ?thesis by simp
qed

lemma binary64_upper: assumes "0 \<le> x" shows "binary64 x \<le> x + x / 2 ^ 53"
proof -
  have "binary64 x - x \<le> \<bar>binary64 x - x\<bar>" by simp
  also have "\<dots> \<le> x / 2 ^ 53" using assms by (rule binary64_error)
  finally show ?thesis by simp
qed

lemma submissionPercentage_Finite:
  "submissionPercentage c t = Finite (of_int (rounded_percent c t))"
  by (simp add: submissionPercentage_def rounded_percent_def Math_round_def js_mul_def js_div_def)

lemma rounded_percent_nonneg: "0 \<le> rounded_percent c t"
proof (cases "0 < t")
  case False
  then show ?thesis by (simp add: rounded_percent_def)
next
  case True
  have "0 \<le> binary64 (of_nat c / of_nat t)" by (rule binary64_nonneg) simp
  then have "0 \<le> binary64 (of_nat c / of_nat t) * 100" by simp
  then have "0 \<le> binary64 (binary64 (of_nat c / of_nat t) * 100)" by (rule binary64_nonneg)
  then have "0 \<le> \<lfloor>binary64 (binary64 (of_nat c / of_nat t) * 100) + 1 / 2\<rfloor>" by simp
  then show ?thesis using True
    by (simp add: rounded_percent_def)
qed

lemma rounded_percent_le_100: assumes "c \<le> t" shows "rounded_percent c t \<le> 100"
proof (cases "0 < t")
  case False
  then show ?thesis by (simp add: rounded_percent_def)
next
  case True
  define q :: rat where "q = of_nat c / of_nat t"
  define a where "a = binary64 q"
  define b where "b = binary64 (a * 100)"
  have q0: "0 \<le> q" by (simp add: q_def)
  have q1: "q \<le> 1" using assms True by (simp add: q_def)
  have a0: "0 \<le> a" unfolding a_def using q0 by (rule binary64_nonneg)
  have "a \<le> q + q / 2 ^ 53" unfolding a_def using q0 by (rule binary64_upper)
  also have "\<dots> \<le> 1 + 1 / 2 ^ 53" using q1 by (simp add: add_mono divide_right_mono)
  finally have a1: "a \<le> 1 + 1 / 2 ^ 53" .
  have "b \<le> a * 100 + a * 100 / 2 ^ 53" unfolding b_def using a0 by (intro binary64_upper) simp
  also have "\<dots> = a * (100 + 100 / 2 ^ 53)" by (simp add: algebra_simps)
  also have "\<dots> \<le> (1 + 1 / 2 ^ 53) * (100 + 100 / 2 ^ 53)" using a1 by (intro mult_right_mono) simp_all
  also have "\<dots> < 100 + 1 / 2" by simp
  finally have "b + 1 / 2 < 101" by simp
  then have "\<lfloor>b + 1 / 2\<rfloor> < 101" by (simp add: floor_less_iff)
  then show ?thesis using True
    by (simp add: rounded_percent_def b_def a_def q_def)
qed

section \<open>Required and completed items\<close>

lemma fst_subject_counts:
  "fst (subject_counts taType cieType submissionTypes isDefaulter studentSubmissions subject) =
     (if subj_type subject = ''practical'' then 1 else if isDefaulter then 3 else 2)"
  by (simp add: subject_counts_def Let_def)

lemma fst_row_counts:
  "fst (row_counts r) =
     (if subj_type (row_subject r) = ''practical'' then 1
      else if s_defaulter (row_student r) then 3 else 2)"
  by (simp add: row_counts_def Let_def)

lemma total_with_percentage: "total_submissions (with_percentage r) = fst (row_counts r)"
  by (simp add: with_percentage_def faculty_row.defs scored_row.defs split: prod.splits)

lemma subject_counts_le:
  "snd (subject_counts taType cieType submissionTypes isDefaulter studentSubmissions subject) \<le>
   fst (subject_counts taType cieType submissionTypes isDefaulter studentSubmissions subject)"
  by (simp add: subject_counts_def Let_def completed_item_def split: option.splits)

lemma fold_counts_le:
  assumes "c0 \<le> t0"
  shows "snd (fold (\<lambda>subject (t, c).
             let (st, sc) = subject_counts taType cieType submissionTypes isDefaulter subs subject
             in (t + st, c + sc)) subjs (t0, c0)) \<le>
         fst (fold (\<lambda>subject (t, c).
             let (st, sc) = subject_counts taType cieType submissionTypes isDefaulter subs subject
             in (t + st, c + sc)) subjs (t0, c0))"
  using assms
proof (induction subjs arbitrary: t0 c0)
  case Nil
  then show ?case by simp
next
  case (Cons x xs)
  obtain st sc where sc: "subject_counts taType cieType submissionTypes isDefaulter subs x = (st, sc)"
    by (cases "subject_counts taType cieType submissionTypes isDefaulter subs x")
  have "sc \<le> st" using subject_counts_le[of taType cieType submissionTypes isDefaulter subs x] sc by simp
  then have "c0 + sc \<le> t0 + st" using Cons.prems by simp
  from Cons.IH[OF this] show ?case by (simp add: sc)
qed

lemma student_counts_le:
  "snd (student_counts taType cieType submissionTypes isDefaulter subs subjs) \<le>
   fst (student_counts taType cieType submissionTypes isDefaulter subs subjs)"
  unfolding student_counts_def by (rule fold_counts_le) simp

lemma row_counts_le: "snd (row_counts r) \<le> fst (row_counts r)"
  by (simp add: row_counts_def Let_def)

lemma percentage_with_percentage:
  "submission_percentage (with_percentage r) = submissionPercentage (snd (row_counts r)) (fst (row_counts r))"
  by (simp add: with_percentage_def faculty_row.defs scored_row.defs split: prod.splits)

lemma roster_percentage_cases:
  "roster_percentage classSubjects electiveSubjects electiveMap submissions submissionTypes s = Finite 0 \<or>
   (\<exists>c t. c \<le> t \<and>
      roster_percentage classSubjects electiveSubjects electiveMap submissions submissionTypes s =
        submissionPercentage c t)"
proof (cases "studentSubjects classSubjects electiveSubjects electiveMap s = []")
  case True
  then show ?thesis by (simp add: roster_percentage_def Let_def)
next
  case False
  let ?p = "student_counts (find_type ''TA'' submissionTypes) (find_type ''CIE'' submissionTypes)
              submissionTypes (s_defaulter s)
              (filter (\<lambda>sub. sub_student_id sub = s_id s) submissions)
              (studentSubjects classSubjects electiveSubjects electiveMap s)"
  have "snd ?p \<le> fst ?p" by (rule student_counts_le)
  moreover have "roster_percentage classSubjects electiveSubjects electiveMap submissions submissionTypes s =
      submissionPercentage (snd ?p) (fst ?p)"
    using False by (simp add: roster_percentage_def Let_def split: prod.splits)
  ultimately show ?thesis by blast
qed

lemma fold_counts_total:
  "length subjs + t0 \<le>
   fst (fold (\<lambda>subject (t, c).
             let (st, sc) = subject_counts taType cieType submissionTypes isDefaulter subs subject
             in (t + st, c + sc)) subjs (t0, c0))"
proof (induction subjs arbitrary: t0 c0)
  case Nil
  then show ?case by simp
next
  case (Cons x xs)
  obtain st sc where sc: "subject_counts taType cieType submissionTypes isDefaulter subs x = (st, sc)"
    by (cases "subject_counts taType cieType submissionTypes isDefaulter subs x")
  have "1 \<le> st" using fst_subject_counts[of taType cieType submissionTypes isDefaulter subs x] sc
    by (simp split: if_splits)
  then have "length (x # xs) + t0 \<le> length xs + (t0 + st)" by simp
  also have "\<dots> \<le> fst (fold (\<lambda>subject (t, c).
             let (st, sc) = subject_counts taType cieType submissionTypes isDefaulter subs subject
             in (t + st, c + sc)) xs (t0 + st, c0 + sc))"
    by (rule Cons.IH)
  finally show ?case by (simp add: sc)
qed

lemma no_required_items_iff_no_subjects:
  "fst (student_counts taType cieType submissionTypes isDefaulter subs subjs) = 0 \<longleftrightarrow> subjs = []"
proof
  assume "fst (student_counts taType cieType submissionTypes isDefaulter subs subjs) = 0"
  moreover have "length subjs + 0 \<le> fst (student_counts taType cieType submissionTypes isDefaulter subs subjs)"
    unfolding student_counts_def by (rule fold_counts_total)
  ultimately show "subjs = []" by simp
next
  assume "subjs = []"
  then show "fst (student_counts taType cieType submissionTypes isDefaulter subs subjs) = 0"
    by (simp add: student_counts_def)
qed

text \<open>
  Claim C1. The number of required items of a (student, subject) pair is 1 for a practical
  subject, and otherwise 3 for a defaulter and 2 for any other student, whatever the
  submission records and submission types are: in the roster of the class teacher
  (\<open>subjectTotal\<close>) and in the rows of the faculty view (\<open>total_submissions\<close>).
\<close>

theorem required_items_by_type_and_flag:
  "fst (subject_counts taType cieType submissionTypes isDefaulter studentSubmissions subject) =
     (if subj_type subject = ''practical'' then 1 else if isDefaulter then 3 else 2) \<and>
   total_submissions
     (with_percentage (student_subject_row taType cieType defaulterType submissions student subject)) =
     (if subj_type subject = ''practical'' then 1 else if s_defaulter student then 3 else 2)"
  by (simp add: fst_subject_counts total_with_percentage fst_row_counts student_subject_row_def Let_def)

text \<open>
  Claim C4. A student without applicable subjects gets the percentage 0 from the roster,
  by the early return; the total of required items is 0 for no other student (lemma
  \<open>no_required_items_iff_no_subjects\<close>), and a total of 0 gives the number 0 by the guard
  of the quotient: the division by zero, whose result would be \<open>NaN\<close>, is not evaluated.
\<close>

theorem no_subjects_percentage_zero:
  assumes "studentSubjects classSubjects electiveSubjects electiveMap s = []"
  shows "roster_percentage classSubjects electiveSubjects electiveMap submissions submissionTypes s = Finite 0 \<and>
         submissionPercentage completed 0 = Finite 0"
  using assms by (simp add: roster_percentage_def Let_def submissionPercentage_def)

theorem no_subjects_percentage_zero_witness:
  "studentSubjects [] [robotics] (studentElectiveMap [bob_selection]) alice = [] \<and>
   roster_percentage [] [robotics] (studentElectiveMap [bob_selection]) [] [ta_type, cie_type] alice =
     Finite 0 \<and>
   submissionPercentage 5 0 = Finite 0 \<and>
   roster_students no_outage class_without_subjects (Some 10) =
     Response 200 True (Data [(alice, Finite 0), (bob, Finite 0)])"
proof -
  have h: "studentSubjects [] [robotics] (studentElectiveMap [bob_selection]) alice = []"
    by (simp add: studentSubjects_def studentElectiveMap_def alice_def bob_selection_def)
  have r: "roster_students no_outage class_without_subjects (Some 10) =
     Response 200 True (Data [(alice, Finite 0), (bob, Finite 0)])"
    by code_simp
  from no_subjects_percentage_zero[OF h, of "[]" "[ta_type, cie_type]" 5] h r show ?thesis by simp
qed

text \<open>
  Claim C10. Every percentage of the roster and of the faculty view is an integer from 0
  to 100 (and so neither \<open>NaN\<close> nor \<open>Infinity\<close>): the completed items of a subject
  never exceed its required items, and the two roundings of the quotient and the product
  cannot carry the result past 100.
\<close>

theorem percentage_between_0_and_100:
  "(\<exists>p. roster_percentage classSubjects electiveSubjects electiveMap submissions submissionTypes s =
           Finite (of_int p) \<and> 0 \<le> p \<and> p \<le> 100) \<and>
   (\<exists>p. submission_percentage (with_percentage r) = Finite (of_int p) \<and> 0 \<le> p \<and> p \<le> 100)"
proof
  from roster_percentage_cases[of classSubjects electiveSubjects electiveMap submissions submissionTypes s]
  show "\<exists>p. roster_percentage classSubjects electiveSubjects electiveMap submissions submissionTypes s =
           Finite (of_int p) \<and> 0 \<le> p \<and> p \<le> 100"
  proof
    assume "roster_percentage classSubjects electiveSubjects electiveMap submissions submissionTypes s =
              Finite 0"
    then show ?thesis by (intro exI[of _ 0]) simp
  next
    assume "\<exists>c t. c \<le> t \<and>
      roster_percentage classSubjects electiveSubjects electiveMap submissions submissionTypes s =
        submissionPercentage c t"
    then obtain c t where "c \<le> t"
      "roster_percentage classSubjects electiveSubjects electiveMap submissions submissionTypes s =
        submissionPercentage c t"
      by blast
    then show ?thesis
      by (intro exI[of _ "rounded_percent c t"])
         (simp add: submissionPercentage_Finite rounded_percent_nonneg rounded_percent_le_100)
  qed
next
  show "\<exists>p. submission_percentage (with_percentage r) = Finite (of_int p) \<and> 0 \<le> p \<and> p \<le> 100"
    by (intro exI[of _ "rounded_percent (snd (row_counts r)) (fst (row_counts r))"])
       (simp add: percentage_with_percentage submissionPercentage_Finite rounded_percent_nonneg
          rounded_percent_le_100 row_counts_le)
qed

section \<open>The lookup of a missing submission type\<close>



section \<open>The subjects that apply to a student\<close>

lemma find_append:
  "List.find P (xs @ ys) = (case List.find P xs of None \<Rightarrow> List.find P ys | Some x \<Rightarrow> Some x)"
  by (induction xs) simp_all

lemma find_filter_hd: "List.find P xs = (case filter P xs of [] \<Rightarrow> None | y # _ \<Rightarrow> Some y)"
  by (induction xs) simp_all

lemma studentElectiveMap_fold:
  "fold (\<lambda>sel m. m(sel_student_id sel \<mapsto> studentElectives sel)) sels m0 sid =
     (case List.find (\<lambda>r. sel_student_id r = sid) (rev sels) of
        None \<Rightarrow> m0 sid
      | Some r \<Rightarrow> Some (studentElectives r))"
proof (induction sels rule: rev_induct)
  case Nil
  then show ?case by simp
next
  case (snoc a sels)
  show ?case
  proof (cases "sel_student_id a = sid")
    case True
    then show ?thesis by simp
  next
    case False
    then show ?thesis using snoc.IH by simp
  qed
qed

lemma studentElectiveMap_last:
  "studentElectiveMap sels sid =
     map_option studentElectives (List.find (\<lambda>r. sel_student_id r = sid) (rev sels))"
  by (simp add: studentElectiveMap_def studentElectiveMap_fold split: option.splits)

lemma find_rev_unique:
  assumes "length (filter P xs) \<le> 1"
  shows "List.find P (rev xs) = (case filter P xs of [] \<Rightarrow> None | r # _ \<Rightarrow> Some r)"
proof (cases "filter P xs")
  case Nil
  then have "\<forall>x \<in> set xs. \<not> P x" by (simp add: filter_empty_conv)
  then show ?thesis using Nil by (simp add: find_None_iff)
next
  case (Cons r rs)
  with assms have rs: "rs = []" by simp
  have "filter P (rev xs) = [r]" using Cons rs by (simp add: rev_filter[symmetric])
  moreover have "List.find P (rev xs) = (case filter P (rev xs) of [] \<Rightarrow> None | y # _ \<Rightarrow> Some y)"
    by (rule find_filter_hd)
  ultimately show ?thesis using Cons by simp
qed

lemma set_truthy: "i \<in> set (truthy key) \<longleftrightarrow> i \<noteq> 0 \<and> key = Some i"
  by (auto simp: truthy_def split: option.splits)

lemma set_studentElectives:
  "i \<in> set (studentElectives r) \<longleftrightarrow>
   i \<noteq> 0 \<and> (mdm_id r = Some i \<or> oe_id r = Some i \<or> pe_id r = Some i)"
  by (auto simp: studentElectives_def set_truthy)

lemma class_subject_in_studentSubjects:
  "x \<in> set classSubjects \<Longrightarrow> x \<in> set (studentSubjects classSubjects electiveSubjects electiveMap s)"
  by (simp add: studentSubjects_def Let_def)

lemma elective_in_studentSubjects_iff:
  assumes "es \<in> set electiveSubjects"
    and "es \<notin> set classSubjects"
    and "length (filter (\<lambda>r. sel_student_id r = s_id s) electiveSelections) \<le> 1"
  shows "es \<in> set (studentSubjects classSubjects electiveSubjects
                     (studentElectiveMap electiveSelections) s) \<longleftrightarrow>
         subj_id es \<noteq> 0 \<and>
         (\<exists>r \<in> set electiveSelections. sel_student_id r = s_id s \<and>
            (mdm_id r = Some (subj_id es) \<or> oe_id r = Some (subj_id es) \<or> pe_id r = Some (subj_id es)))"
proof (cases "filter (\<lambda>r. sel_student_id r = s_id s) electiveSelections")
  case Nil
  then have none: "\<forall>r \<in> set electiveSelections. sel_student_id r \<noteq> s_id s"
    by (simp add: filter_empty_conv)
  have "studentElectiveMap electiveSelections (s_id s) = None"
    using Nil assms(3) by (simp add: studentElectiveMap_last find_rev_unique)
  then have "es \<notin> set (studentSubjects classSubjects electiveSubjects
                     (studentElectiveMap electiveSelections) s)"
    using assms(2) by (simp add: studentSubjects_def)
  with none show ?thesis by blast
next
  case (Cons r rs)
  with assms(3) have rs: "rs = []" by simp
  have mem: "r' \<in> set (filter (\<lambda>r. sel_student_id r = s_id s) electiveSelections) \<longleftrightarrow> r' = r"
    for r' using Cons rs by simp
  have r_in: "r \<in> set electiveSelections" and r_id: "sel_student_id r = s_id s"
    using mem[of r] by simp_all
  have r_only: "r' = r" if "r' \<in> set electiveSelections" "sel_student_id r' = s_id s" for r'
    using mem[of r'] that by simp
  have "studentElectiveMap electiveSelections (s_id s) = Some (studentElectives r)"
    using Cons assms(3) by (simp add: studentElectiveMap_last find_rev_unique)
  then have "es \<in> set (studentSubjects classSubjects electiveSubjects
                     (studentElectiveMap electiveSelections) s) \<longleftrightarrow>
             subj_id es \<in> set (studentElectives r)"
    using assms(1,2) by (simp add: studentSubjects_def)
  also have "\<dots> \<longleftrightarrow> subj_id es \<noteq> 0 \<and>
      (mdm_id r = Some (subj_id es) \<or> oe_id r = Some (subj_id es) \<or> pe_id r = Some (subj_id es))"
    by (rule set_studentElectives)
  also have "\<dots> \<longleftrightarrow> subj_id es \<noteq> 0 \<and>
         (\<exists>r \<in> set electiveSelections. sel_student_id r = s_id s \<and>
            (mdm_id r = Some (subj_id es) \<or> oe_id r = Some (subj_id es) \<or> pe_id r = Some (subj_id es)))"
    using r_in r_id r_only by blast
  finally show ?thesis .
qed

lemma selections_of_class_student:
  assumes "s \<in> set (read_students_of_class ds classId)"
  shows "filter (\<lambda>r. sel_student_id r = s_id s)
           (read_selections_of ds (map s_id (read_students_of_class ds classId))) =
         filter (\<lambda>r. sel_student_id r = s_id s) (student_subject_selection ds)"
proof -
  have h: "s_id s \<in> set (map s_id (read_students_of_class ds classId))" using assms by simp
  show ?thesis
    unfolding read_selections_of_def filter_filter
    by (rule filter_cong[OF refl]) (use h in auto)
qed

lemma row_of_student_iff:
  fixes xs ys :: "selection list" and P :: "selection \<Rightarrow> bool"
  assumes "filter (\<lambda>r. sel_student_id r = sid) xs = filter (\<lambda>r. sel_student_id r = sid) ys"
  shows "(\<exists>r \<in> set xs. sel_student_id r = sid \<and> P r) \<longleftrightarrow> (\<exists>r \<in> set ys. sel_student_id r = sid \<and> P r)"
proof -
  have e: "(\<exists>r \<in> set zs. sel_student_id r = sid \<and> P r) \<longleftrightarrow>
        (\<exists>r \<in> set (filter (\<lambda>r. sel_student_id r = sid) zs). P r)" for zs :: "selection list"
    by auto
  show ?thesis by (simp only: e assms)
qed

text \<open>
  Claim C7, as the code has it. In the roster and in the export, the subjects of a student
  are the class's own subjects followed by the subjects that the student's selection row
  refers to, both computed from the rows that the reads of the route return. For a student
  of the class with at most one selection row, a subject of the datastore is among the
  student's subjects exactly when it is one of the class's own subjects (whatever its type,
  selected or not), or the student's selection row refers to it in the mdm, oe or pe slot by
  a key that passes the truthiness test. So a subject that is not one of the class's own
  and that only other students selected is not among them.
\<close>

theorem elective_applicable_iff_selected:
  assumes "s \<in> set (read_students_of_class ds classId)"
    and "x \<in> set (subjects ds)"
    and "length (filter (\<lambda>r. sel_student_id r = s_id s) (student_subject_selection ds)) \<le> 1"
  shows "x \<in> set (studentSubjects
                    (read_subjects_of_class ds classId)
                    (read_subjects_in ds
                       (electiveSubjectIds
                          (read_selections_of ds (map s_id (read_students_of_class ds classId)))))
                    (studentElectiveMap
                       (read_selections_of ds (map s_id (read_students_of_class ds classId))))
                    s) \<longleftrightarrow>
         subj_class_id x = Some classId \<or>
         subj_id x \<noteq> 0 \<and>
         (\<exists>r \<in> set (student_subject_selection ds). sel_student_id r = s_id s \<and>
            (mdm_id r = Some (subj_id x) \<or> oe_id r = Some (subj_id x) \<or> pe_id r = Some (subj_id x)))"
proof (cases "subj_class_id x = Some classId")
  case True
  with assms(2) have "x \<in> set (read_subjects_of_class ds classId)"
    by (simp add: read_subjects_of_class_def)
  then show ?thesis using True by (simp add: class_subject_in_studentSubjects)
next
  case other: False
  define sels where "sels = read_selections_of ds (map s_id (read_students_of_class ds classId))"
  define electives where "electives = read_subjects_in ds (electiveSubjectIds sels)"
  define core where "core = read_subjects_of_class ds classId"
  have same: "filter (\<lambda>r. sel_student_id r = s_id s) sels =
              filter (\<lambda>r. sel_student_id r = s_id s) (student_subject_selection ds)"
    unfolding sels_def using assms(1) by (rule selections_of_class_student)
  have one: "length (filter (\<lambda>r. sel_student_id r = s_id s) sels) \<le> 1"
    using assms(3) same by simp
  have not_core: "x \<notin> set core" using other by (simp add: core_def read_subjects_of_class_def)
  have rows: "(\<exists>r \<in> set sels. sel_student_id r = s_id s \<and>
                 (mdm_id r = Some (subj_id x) \<or> oe_id r = Some (subj_id x) \<or> pe_id r = Some (subj_id x))) \<longleftrightarrow>
              (\<exists>r \<in> set (student_subject_selection ds). sel_student_id r = s_id s \<and>
                 (mdm_id r = Some (subj_id x) \<or> oe_id r = Some (subj_id x) \<or> pe_id r = Some (subj_id x)))"
    using same by (rule row_of_student_iff)
  have "x \<in> set (studentSubjects core electives (studentElectiveMap sels) s) \<longleftrightarrow>
        subj_id x \<noteq> 0 \<and>
        (\<exists>r \<in> set sels. sel_student_id r = s_id s \<and>
           (mdm_id r = Some (subj_id x) \<or> oe_id r = Some (subj_id x) \<or> pe_id r = Some (subj_id x)))"
  proof (cases "x \<in> set electives")
    case True
    then show ?thesis using not_core one by (rule elective_in_studentSubjects_iff)
  next
    case False
    then have lhs: "x \<notin> set (studentSubjects core electives (studentElectiveMap sels) s)"
      using not_core by (simp add: studentSubjects_def Let_def)
    have "\<not> (subj_id x \<noteq> 0 \<and>
        (\<exists>r \<in> set sels. sel_student_id r = s_id s \<and>
           (mdm_id r = Some (subj_id x) \<or> oe_id r = Some (subj_id x) \<or> pe_id r = Some (subj_id x))))"
    proof
      assume "subj_id x \<noteq> 0 \<and>
        (\<exists>r \<in> set sels. sel_student_id r = s_id s \<and>
           (mdm_id r = Some (subj_id x) \<or> oe_id r = Some (subj_id x) \<or> pe_id r = Some (subj_id x)))"
      then obtain r where r: "r \<in> set sels" "subj_id x \<noteq> 0"
        "mdm_id r = Some (subj_id x) \<or> oe_id r = Some (subj_id x) \<or> pe_id r = Some (subj_id x)"
        by blast
      from r(2,3) have "subj_id x \<in> set (studentElectives r)" by (simp add: set_studentElectives)
      with r(1) have "subj_id x \<in> set (electiveSubjectIds sels)"
        by (auto simp: electiveSubjectIds_def)
      with assms(2) have "x \<in> set electives" by (simp add: electives_def read_subjects_in_def)
      with False show False by simp
    qed
    with lhs show ?thesis by simp
  qed
  with rows other show ?thesis unfolding sels_def electives_def core_def by simp
qed

theorem elective_applicable_iff_selected_witness:
  "bob \<in> set (read_students_of_class class_of_two 10) \<and>
   alice \<in> set (read_students_of_class class_of_two 10) \<and>
   robotics \<in> set (subjects class_of_two) \<and>
   maths \<in> set (subjects class_of_two) \<and>
   length (filter (\<lambda>r. sel_student_id r = s_id bob) (student_subject_selection class_of_two)) \<le> 1 \<and>
   length (filter (\<lambda>r. sel_student_id r = s_id alice) (student_subject_selection class_of_two)) \<le> 1 \<and>
   robotics \<in> set (studentSubjects
                    (read_subjects_of_class class_of_two 10)
                    (read_subjects_in class_of_two
                       (electiveSubjectIds
                          (read_selections_of class_of_two (map s_id (read_students_of_class class_of_two 10)))))
                    (studentElectiveMap
                       (read_selections_of class_of_two (map s_id (read_students_of_class class_of_two 10))))
                    bob) \<and>
   robotics \<notin> set (studentSubjects
                    (read_subjects_of_class class_of_two 10)
                    (read_subjects_in class_of_two
                       (electiveSubjectIds
                          (read_selections_of class_of_two (map s_id (read_students_of_class class_of_two 10)))))
                    (studentElectiveMap
                       (read_selections_of class_of_two (map s_id (read_students_of_class class_of_two 10))))
                    alice) \<and>
   maths \<in> set (studentSubjects
                    (read_subjects_of_class class_of_two 10)
                    (read_subjects_in class_of_two
                       (electiveSubjectIds
                          (read_selections_of class_of_two (map s_id (read_students_of_class class_of_two 10)))))
                    (studentElectiveMap
                       (read_selections_of class_of_two (map s_id (read_students_of_class class_of_two 10))))
                    alice)"
proof -
  have b: "bob \<in> set (read_students_of_class class_of_two 10)"
    by (simp add: read_students_of_class_def class_of_two_def alice_def bob_def)
  have a: "alice \<in> set (read_students_of_class class_of_two 10)"
    by (simp add: read_students_of_class_def class_of_two_def alice_def bob_def)
  have x: "robotics \<in> set (subjects class_of_two)" by (simp add: class_of_two_def)
  have m: "maths \<in> set (subjects class_of_two)" by (simp add: class_of_two_def)
  have lb: "length (filter (\<lambda>r. sel_student_id r = s_id bob) (student_subject_selection class_of_two)) \<le> 1"
    by (simp add: class_of_two_def)
  have la: "length (filter (\<lambda>r. sel_student_id r = s_id alice) (student_subject_selection class_of_two)) \<le> 1"
    by (simp add: class_of_two_def)
  have rb: "subj_class_id robotics = Some 10 \<or>
            subj_id robotics \<noteq> 0 \<and>
            (\<exists>r \<in> set (student_subject_selection class_of_two). sel_student_id r = s_id bob \<and>
            (mdm_id r = Some (subj_id robotics) \<or> oe_id r = Some (subj_id robotics) \<or>
             pe_id r = Some (subj_id robotics)))"
    by (simp add: class_of_two_def bob_selection_def bob_def robotics_def)
  have ra: "\<not> (subj_class_id robotics = Some 10 \<or>
            subj_id robotics \<noteq> 0 \<and>
            (\<exists>r \<in> set (student_subject_selection class_of_two). sel_student_id r = s_id alice \<and>
            (mdm_id r = Some (subj_id robotics) \<or> oe_id r = Some (subj_id robotics) \<or>
             pe_id r = Some (subj_id robotics))))"
    by (simp add: class_of_two_def bob_selection_def alice_def robotics_def)
  have rm: "subj_class_id maths = Some 10 \<or>
            subj_id maths \<noteq> 0 \<and>
            (\<exists>r \<in> set (student_subject_selection class_of_two). sel_student_id r = s_id alice \<and>
            (mdm_id r = Some (subj_id maths) \<or> oe_id r = Some (subj_id maths) \<or>
             pe_id r = Some (subj_id maths)))"
    by (simp add: maths_def)
  note tb = elective_applicable_iff_selected[OF b x lb]
  note ta = elective_applicable_iff_selected[OF a x la]
  note tm = elective_applicable_iff_selected[OF a m la]
  show ?thesis
    by (intro conjI b a x m lb la iffD2[OF tb rb] iffD2[OF arg_cong[where f = Not, OF ta] ra]
          iffD2[OF tm rm])
qed

text \<open>
  The claim as it was stated fails for an elective that is one of the class's own
  subjects: the subject of type \<open>MDM\<close> below has the \<open>class_id\<close> of the class, only Bob's
  selection row refers to it, and it is among Alice's subjects as well (and twice among
  Bob's); the export has an entry for it in the row of either student.
\<close>

theorem class_elective_applies_unselected:
  "alice \<in> set (read_students_of_class class_with_elective 10) \<and>
   subj_type class_elective = ''MDM'' \<and>
   class_elective \<in> set (studentSubjects
                    (read_subjects_of_class class_with_elective 10)
                    (read_subjects_in class_with_elective
                       (electiveSubjectIds
                          (read_selections_of class_with_elective (map s_id (read_students_of_class class_with_elective 10)))))
                    (studentElectiveMap
                       (read_selections_of class_with_elective (map s_id (read_students_of_class class_with_elective 10))))
                    alice) \<and>
   \<not> (\<exists>r \<in> set (student_subject_selection class_with_elective). sel_student_id r = s_id alice \<and>
          (mdm_id r = Some (subj_id class_elective) \<or> oe_id r = Some (subj_id class_elective) \<or>
           pe_id r = Some (subj_id class_elective))) \<and>
   map subj_id (studentSubjects
                    (read_subjects_of_class class_with_elective 10)
                    (read_subjects_in class_with_elective
                       (electiveSubjectIds
                          (read_selections_of class_with_elective (map s_id (read_students_of_class class_with_elective 10)))))
                    (studentElectiveMap
                       (read_selections_of class_with_elective (map s_id (read_students_of_class class_with_elective 10))))
                    alice) = [1, 2, 3] \<and>
   map subj_id (studentSubjects
                    (read_subjects_of_class class_with_elective 10)
                    (read_subjects_in class_with_elective
                       (electiveSubjectIds
                          (read_selections_of class_with_elective (map s_id (read_students_of_class class_with_elective 10)))))
                    (studentElectiveMap
                       (read_selections_of class_with_elective (map s_id (read_students_of_class class_with_elective 10))))
                    bob) = [1, 2, 3, 3] \<and>
   (case class_data no_outage class_with_elective (Some 10) of
      Response code ok (Data e) \<Rightarrow>
        code = 200 \<and> map (\<lambda>row. (ex_name row, map_option subject_type (ex_submissions row 3)))
                      (ex_students e) =
                    [(''Alice'', Some ''MDM''), (''Bob'', Some ''MDM'')]
    | _ \<Rightarrow> False)"
  by code_simp


text \<open>
  A reference by the key 0 does not pass the truthiness test of the slot: Bob's row refers
  to the subject of key 0 in its \<open>oe\<close> slot, and the subject is not among Bob's subjects.
\<close>

lemma key_zero_is_not_selected:
  "map subj_id (applicable_subjects class_with_key_zero 10 bob) = [1, 2, 3] \<and>
   oe_id (hd (student_subject_selection class_with_key_zero)) = Some (subj_id unnumbered)"
  by code_simp

section \<open>Removing a student of another class\<close>

text \<open>
  Claim C8. When the caller has a class, the ownership read finds the student, and the
  student's class is not the caller's, the answer is 403 with \<open>success\<close> false and the
  datastore is left as it was: the delete is not reached.
\<close>

theorem foreign_student_not_deleted:
  assumes "out Read_student = None"
    and "single (filter (\<lambda>s. s_id s = i) (students ds)) = Some st"
    and "s_class_id st \<noteq> Some classId"
  shows "delete_student out ds (Some i) (Some classId) =
           (Response 403 False (ErrorMsg ''Unauthorized to delete this student''), ds)"
  using assms by (simp add: delete_student_def)

theorem foreign_student_not_deleted_witness:
  "no_outage Read_student = None \<and>
   single (filter (\<lambda>s. s_id s = 1) (students class_of_two)) = Some alice \<and>
   s_class_id alice \<noteq> Some 11 \<and>
   delete_student no_outage class_of_two (Some 1) (Some 11) =
     (Response 403 False (ErrorMsg ''Unauthorized to delete this student''), class_of_two)"
proof -
  have h1: "no_outage Read_student = None" by (simp add: no_outage_def)
  have h2: "single (filter (\<lambda>s. s_id s = 1) (students class_of_two)) = Some alice"
    by (simp add: class_of_two_def alice_def bob_def single_def)
  have h3: "s_class_id alice \<noteq> Some 11" by (simp add: alice_def)
  from foreign_student_not_deleted[where out = no_outage and i = 1 and ds = class_of_two
      and st = alice and classId = 11, OF h1 h2 h3] h1 h2 h3
  show ?thesis by simp
qed

section \<open>Completed items and reported statuses\<close>


lemma pair_lookup:
  "find_submission ty (filter (\<lambda>sub. sub_student_id sub = sid \<and> sub_subject_id sub = subjid)
                        submissions) =
   first_record submissions sid subjid ty"
proof (cases ty)
  case None
  then show ?thesis
    by (simp add: find_submission_def has_type_def first_record_def find_None_iff)
next
  case (Some t)
  then show ?thesis
    by (induction submissions) (simp_all add: find_submission_def has_type_def first_record_def)
qed

lemma roster_lookup:
  "find_submission ty (filter (\<lambda>sub. sub_subject_id sub = subjid)
                        (filter (\<lambda>sub. sub_student_id sub = sid) submissions)) =
   first_record submissions sid subjid ty"
  by (simp add: pair_lookup)

lemma completed_status: "(status_or_pending x = ''completed'') = (completed_item x = 1)"
  by (auto simp: status_or_pending_def completed_item_def split: option.splits)

lemma completed_item_of_status:
  "(if status_or_pending x = ''completed'' then 1 else 0) = completed_item x"
  by (auto simp: status_or_pending_def completed_item_def split: option.splits)

lemma roster_completed:
  "snd (subject_counts taType cieType submissionTypes isDefaulter
          (filter (\<lambda>sub. sub_student_id sub = sid) submissions) subject) =
     (if subj_type subject = ''practical''
      then completed_item (first_record submissions sid (subj_id subject) taType)
      else completed_item (first_record submissions sid (subj_id subject) taType) +
           completed_item (first_record submissions sid (subj_id subject) cieType) +
           (if isDefaulter
            then completed_item (first_record submissions sid (subj_id subject)
                                   (find_type ''Defaulter work'' submissionTypes))
            else 0))"
  by (simp add: subject_counts_def Let_def pair_lookup)

lemma faculty_completed:
  "snd (row_counts (student_subject_row taType cieType defaulterType submissions student subject)) =
     (if subj_type subject = ''practical''
      then completed_item (first_record submissions (s_id student) (subj_id subject) taType)
      else completed_item (first_record submissions (s_id student) (subj_id subject) taType) +
           completed_item (first_record submissions (s_id student) (subj_id subject) cieType) +
           (if s_defaulter student
            then completed_item (first_record submissions (s_id student) (subj_id subject) defaulterType)
            else 0))"
  by (simp add: row_counts_def student_subject_row_def Let_def pair_lookup completed_item_of_status)

lemma first_record_unique:
  assumes "length (filter (\<lambda>r. sub_student_id r = sid \<and> sub_subject_id r = subjid \<and>
                                 submission_type_id r = type_id t) submissions) \<le> 1"
  shows "(\<exists>r. first_record submissions sid subjid (Some t) = Some r \<and> status r = ''completed'') \<longleftrightarrow>
         (\<exists>r \<in> set submissions. sub_student_id r = sid \<and> sub_subject_id r = subjid \<and>
                submission_type_id r = type_id t \<and> status r = ''completed'')"
proof -
  define P :: "submission \<Rightarrow> bool" where "P = (\<lambda>r. sub_student_id r = sid \<and> sub_subject_id r = subjid \<and>
                            submission_type_id r = type_id t)"
  have len: "length (filter P submissions) \<le> 1" using assms by (simp add: P_def)
  have f: "first_record submissions sid subjid (Some t) =
             (case filter P submissions of [] \<Rightarrow> None | y # _ \<Rightarrow> Some y)"
    unfolding first_record_def P_def option.case by (rule find_filter_hd)
  have goal: "(\<exists>r. first_record submissions sid subjid (Some t) = Some r \<and> status r = ''completed'') \<longleftrightarrow>
         (\<exists>r \<in> set submissions. P r \<and> status r = ''completed'')"
  proof (cases "filter P submissions")
    case Nil
    then have "\<forall>r \<in> set submissions. \<not> P r" by (simp add: filter_empty_conv)
    moreover have "first_record submissions sid subjid (Some t) = None" using f Nil by simp
    ultimately show ?thesis by simp
  next
    case (Cons y ys)
    with len have ys: "ys = []" by simp
    have mem: "r \<in> set (filter P submissions) \<longleftrightarrow> r = y" for r using Cons ys by simp
    have y_in: "y \<in> set submissions" "P y" using mem[of y] by simp_all
    have y_only: "r = y" if "r \<in> set submissions" "P r" for r using mem[of r] that by simp
    have fy: "first_record submissions sid subjid (Some t) = Some y" using f Cons by simp
    have "(\<exists>r \<in> set submissions. P r \<and> status r = ''completed'') \<longleftrightarrow> status y = ''completed''"
    proof
      assume "\<exists>r \<in> set submissions. P r \<and> status r = ''completed''"
      then obtain r where r: "r \<in> set submissions" "P r" "status r = ''completed''" by auto
      from y_only[OF r(1,2)] r(3) show "status y = ''completed''" by simp
    next
      assume "status y = ''completed''"
      with y_in show "\<exists>r \<in> set submissions. P r \<and> status r = ''completed''" by (intro bexI[of _ y]) simp_all
    qed
    then show ?thesis using fy by simp
  qed
  then show ?thesis by (simp add: P_def conj_assoc)
qed

lemma export_fields:
  "ta (subject_entry taType cieType defaulterType submissions student subject) =
     status_or_pending (first_record submissions (s_id student) (subj_id subject) taType)"
  "cie (subject_entry taType cieType defaulterType submissions student subject) =
     (if subj_type subject = ''practical'' then ''N/A''
      else status_or_pending (first_record submissions (s_id student) (subj_id subject) cieType))"
  "defaulter (subject_entry taType cieType defaulterType submissions student subject) =
     (if s_defaulter student \<and> subj_type subject \<noteq> ''practical''
      then status_or_pending (first_record submissions (s_id student) (subj_id subject) defaulterType)
      else ''-'')"
  by (simp_all add: subject_entry_def Let_def pair_lookup)

lemma faculty_fields:
  "ta_status (student_subject_row taType cieType defaulterType submissions student subject) =
     status_or_pending (first_record submissions (s_id student) (subj_id subject) taType)"
  "cie_status (student_subject_row taType cieType defaulterType submissions student subject) =
     status_or_pending (first_record submissions (s_id student) (subj_id subject) cieType)"
  "defaulter_status (student_subject_row taType cieType defaulterType submissions student subject) =
     status_or_pending (first_record submissions (s_id student) (subj_id subject) defaulterType)"
  by (simp_all add: student_subject_row_def Let_def pair_lookup)

lemma first_record_in: "first_record submissions sid subjid ty = Some r \<Longrightarrow> r \<in> set submissions"
  by (cases ty) (auto simp: first_record_def find_Some_iff)

lemma reported_status:
  "status_or_pending (first_record submissions sid subjid ty) \<in> {''pending''} \<union> status ` set submissions"
proof (cases "first_record submissions sid subjid ty")
  case None
  then show ?thesis by (simp add: status_or_pending_def)
next
  case (Some r)
  then have "r \<in> set submissions" by (rule first_record_in)
  then show ?thesis using Some by (simp add: status_or_pending_def)
qed

lemma completed_item_iff:
  "completed_item x = (if \<exists>r. x = Some r \<and> status r = ''completed'' then 1 else 0)"
  by (cases x) (simp_all add: completed_item_def)

text \<open>
  Claim C3, as the code has it. A required item counts as completed exactly when the
  record that the lookup finds for its (student, subject, submission type) has the
  status \<open>completed\<close>; the lookup finds the first record of that key, which is the only
  one when records are unique per key, so that then the item is completed exactly when a
  record of the key with status \<open>completed\<close> exists. Without a record, with another
  status, or with a type that is missing, the item adds nothing to the completed count
  of the roster and of the faculty view. In the outputs that carry a status per item, a
  missing record and an empty status read \<open>pending\<close>, and any other status is passed on
  as it is stored: so do the fields \<open>ta\<close>, \<open>cie\<close> and \<open>defaulter\<close> of the export for every
  required item (the export has the fixed strings \<open>N/A\<close> and \<open>-\<close> where the item is
  not required), and the fields \<open>ta_status\<close>, \<open>cie_status\<close> and \<open>defaulter_status\<close> of the
  faculty view.
\<close>

theorem item_completed_iff_found_record_completed:
  "completed_item (first_record submissions (s_id student) (subj_id subject) ty) =
     (if \<exists>r. first_record submissions (s_id student) (subj_id subject) ty = Some r \<and>
              status r = ''completed''
      then 1 else 0) \<and>
   (length (filter (\<lambda>r. sub_student_id r = s_id student \<and> sub_subject_id r = subj_id subject \<and>
                          submission_type_id r = type_id t) submissions) \<le> 1 \<longrightarrow>
      ((\<exists>r. first_record submissions (s_id student) (subj_id subject) (Some t) = Some r \<and>
            status r = ''completed'') \<longleftrightarrow>
       (\<exists>r \<in> set submissions. sub_student_id r = s_id student \<and>
            sub_subject_id r = subj_id subject \<and> submission_type_id r = type_id t \<and>
            status r = ''completed''))) \<and>
   first_record submissions (s_id student) (subj_id subject) None = None \<and>
   snd (subject_counts taType cieType submissionTypes isDefaulter
          (filter (\<lambda>sub. sub_student_id sub = s_id student) submissions) subject) =
     (if subj_type subject = ''practical''
      then completed_item (first_record submissions (s_id student) (subj_id subject) taType)
      else completed_item (first_record submissions (s_id student) (subj_id subject) taType) +
           completed_item (first_record submissions (s_id student) (subj_id subject) cieType) +
           (if isDefaulter
            then completed_item (first_record submissions (s_id student) (subj_id subject)
                                   (find_type ''Defaulter work'' submissionTypes))
            else 0)) \<and>
   snd (row_counts (student_subject_row taType cieType defaulterType submissions student subject)) =
     (if subj_type subject = ''practical''
      then completed_item (first_record submissions (s_id student) (subj_id subject) taType)
      else completed_item (first_record submissions (s_id student) (subj_id subject) taType) +
           completed_item (first_record submissions (s_id student) (subj_id subject) cieType) +
           (if s_defaulter student
            then completed_item (first_record submissions (s_id student) (subj_id subject) defaulterType)
            else 0)) \<and>
   ta (subject_entry taType cieType defaulterType submissions student subject) =
     (case first_record submissions (s_id student) (subj_id subject) taType of
        None \<Rightarrow> ''pending''
      | Some r \<Rightarrow> if status r = [] then ''pending'' else status r) \<and>
   ta_status (student_subject_row taType cieType defaulterType submissions student subject) =
     (case first_record submissions (s_id student) (subj_id subject) taType of
        None \<Rightarrow> ''pending''
      | Some r \<Rightarrow> if status r = [] then ''pending'' else status r) \<and>
   cie (subject_entry taType cieType defaulterType submissions student subject) =
     (if subj_type subject = ''practical'' then ''N/A''
      else (case first_record submissions (s_id student) (subj_id subject) cieType of
           None \<Rightarrow> ''pending''
         | Some r \<Rightarrow> if status r = [] then ''pending'' else status r)) \<and>
   defaulter (subject_entry taType cieType defaulterType submissions student subject) =
     (if s_defaulter student \<and> subj_type subject \<noteq> ''practical''
      then (case first_record submissions (s_id student) (subj_id subject) defaulterType of
           None \<Rightarrow> ''pending''
         | Some r \<Rightarrow> if status r = [] then ''pending'' else status r)
      else ''-'') \<and>
   cie_status (student_subject_row taType cieType defaulterType submissions student subject) =
     (case first_record submissions (s_id student) (subj_id subject) cieType of
       None \<Rightarrow> ''pending''
     | Some r \<Rightarrow> if status r = [] then ''pending'' else status r) \<and>
   defaulter_status (student_subject_row taType cieType defaulterType submissions student subject) =
     (case first_record submissions (s_id student) (subj_id subject) defaulterType of
       None \<Rightarrow> ''pending''
     | Some r \<Rightarrow> if status r = [] then ''pending'' else status r)"
proof -
  have 1: "completed_item (first_record submissions (s_id student) (subj_id subject) ty) =
     (if \<exists>r. first_record submissions (s_id student) (subj_id subject) ty = Some r \<and>
              status r = ''completed''
      then 1 else 0)"
    by (rule completed_item_iff)
  have 2: "first_record submissions (s_id student) (subj_id subject) None = None"
    by (simp add: first_record_def)
  have 3: "ta (subject_entry taType cieType defaulterType submissions student subject) =
     (case first_record submissions (s_id student) (subj_id subject) taType of
        None \<Rightarrow> ''pending''
      | Some r \<Rightarrow> if status r = [] then ''pending'' else status r)"
    by (simp add: export_fields status_or_pending_def)
  have 4: "ta_status (student_subject_row taType cieType defaulterType submissions student subject) =
     (case first_record submissions (s_id student) (subj_id subject) taType of
        None \<Rightarrow> ''pending''
      | Some r \<Rightarrow> if status r = [] then ''pending'' else status r)"
    by (simp add: faculty_fields status_or_pending_def)
  have 5: "cie (subject_entry taType cieType defaulterType submissions student subject) =
     (if subj_type subject = ''practical'' then ''N/A''
      else (case first_record submissions (s_id student) (subj_id subject) cieType of
           None \<Rightarrow> ''pending''
         | Some r \<Rightarrow> if status r = [] then ''pending'' else status r))"
    by (simp add: export_fields status_or_pending_def)
  have 6: "defaulter (subject_entry taType cieType defaulterType submissions student subject) =
     (if s_defaulter student \<and> subj_type subject \<noteq> ''practical''
      then (case first_record submissions (s_id student) (subj_id subject) defaulterType of
           None \<Rightarrow> ''pending''
         | Some r \<Rightarrow> if status r = [] then ''pending'' else status r)
      else ''-'')"
    by (simp add: export_fields status_or_pending_def)
  have 7: "cie_status (student_subject_row taType cieType defaulterType submissions student subject) =
     (case first_record submissions (s_id student) (subj_id subject) cieType of
       None \<Rightarrow> ''pending''
     | Some r \<Rightarrow> if status r = [] then ''pending'' else status r)"
    by (simp add: faculty_fields status_or_pending_def)
  have 8: "defaulter_status (student_subject_row taType cieType defaulterType submissions student subject) =
     (case first_record submissions (s_id student) (subj_id subject) defaulterType of
       None \<Rightarrow> ''pending''
     | Some r \<Rightarrow> if status r = [] then ''pending'' else status r)"
    by (simp add: faculty_fields status_or_pending_def)
  show ?thesis
    using 1 2 3 4 5 6 7 8 first_record_unique[of "s_id student" "subj_id subject" t submissions]
      roster_completed[of taType cieType submissionTypes isDefaulter "s_id student" submissions subject]
      faculty_completed[of taType cieType defaulterType submissions student subject]
    by blast
qed

theorem item_completed_iff_found_record_completed_witness:
  "length (filter (\<lambda>r. sub_student_id r = s_id alice \<and> sub_subject_id r = subj_id maths \<and>
                         submission_type_id r = type_id ta_type) [alice_maths_ta]) \<le> 1 \<and>
   (\<exists>r \<in> set [alice_maths_ta]. sub_student_id r = s_id alice \<and>
        sub_subject_id r = subj_id maths \<and> submission_type_id r = type_id ta_type \<and>
        status r = ''completed'') \<and>
   completed_item (first_record [alice_maths_ta] (s_id alice) (subj_id maths) (Some ta_type)) = 1 \<and>
   snd (subject_counts (Some ta_type) (Some cie_type) [ta_type, cie_type, defaulter_type] False
          (filter (\<lambda>sub. sub_student_id sub = s_id alice) [alice_maths_ta]) maths) = 1 \<and>
   snd (row_counts (student_subject_row (Some ta_type) (Some cie_type) (Some defaulter_type)
          [alice_maths_ta] alice maths)) = 1"
proof -
  have h: "length (filter (\<lambda>r. sub_student_id r = s_id alice \<and> sub_subject_id r = subj_id maths \<and>
                         submission_type_id r = type_id ta_type) [alice_maths_ta]) \<le> 1"
    by simp
  have e: "\<exists>r \<in> set [alice_maths_ta]. sub_student_id r = s_id alice \<and>
        sub_subject_id r = subj_id maths \<and> submission_type_id r = type_id ta_type \<and>
        status r = ''completed''"
    by (simp add: alice_maths_ta_def alice_def maths_def ta_type_def)
  have cie: "completed_item (first_record [alice_maths_ta] (s_id alice) (subj_id maths) (Some cie_type)) = 0"
    by (simp add: first_record_def completed_item_def alice_maths_ta_def cie_type_def)
  have ty: "subj_type maths \<noteq> ''practical''" by (simp add: maths_def)
  have d: "\<not> s_defaulter alice" by (simp add: alice_def)
  note t = item_completed_iff_found_record_completed[of "[alice_maths_ta]" alice maths
      "Some ta_type" ta_type "Some ta_type" "Some cie_type" "[ta_type, cie_type, defaulter_type]"
      False "Some defaulter_type"]
  from t h e have c: "completed_item (first_record [alice_maths_ta] (s_id alice) (subj_id maths) (Some ta_type)) = 1"
    by presburger
  have r: "snd (subject_counts (Some ta_type) (Some cie_type) [ta_type, cie_type, defaulter_type] False
          (filter (\<lambda>sub. sub_student_id sub = s_id alice) [alice_maths_ta]) maths) = 1"
    using t[THEN conjunct2, THEN conjunct2, THEN conjunct2, THEN conjunct1] c cie ty by simp
  have f: "snd (row_counts (student_subject_row (Some ta_type) (Some cie_type) (Some defaulter_type)
          [alice_maths_ta] alice maths)) = 1"
    using t[THEN conjunct2, THEN conjunct2, THEN conjunct2, THEN conjunct2, THEN conjunct1] c cie ty d
    by simp
  show ?thesis by (intro conjI h e c r f)
qed

text \<open>
  The claim as stated has an incomplete item reported as \<open>pending\<close>. A record whose
  status is \<open>submitted\<close> is not counted, and both the export and the faculty view
  report it as \<open>submitted\<close>.
\<close>

theorem other_status_reported_as_stored:
  "ta (subject_entry (Some ta_type) (Some cie_type) (Some defaulter_type)
         [alice_maths_ta_submitted] alice maths) = ''submitted'' \<and>
   ta_status (student_subject_row (Some ta_type) (Some cie_type) (Some defaulter_type)
         [alice_maths_ta_submitted] alice maths) = ''submitted'' \<and>
   ''submitted'' \<noteq> ''pending'' \<and>
   snd (subject_counts (Some ta_type) (Some cie_type) [ta_type, cie_type, defaulter_type] False
          [alice_maths_ta_submitted] maths) = 0"
  by (simp add: subject_entry_def student_subject_row_def subject_counts_def find_submission_def
        has_type_def status_or_pending_def completed_item_def alice_maths_ta_submitted_def
        alice_def maths_def ta_type_def cie_type_def defaulter_type_def Let_def)

text \<open>
  Claim C6, as the code has it. In the export, \<open>cie\<close> is \<open>N/A\<close> for a practical
  subject and \<open>defaulter\<close> is \<open>-\<close> for a practical subject or a student who is not a
  defaulter; every status of the export is \<open>pending\<close>, \<open>N/A\<close>, \<open>-\<close> or the status
  of a stored record, and every status of the faculty view is \<open>pending\<close> or the status
  of a stored record. When the stored statuses are only \<open>pending\<close> and \<open>completed\<close>,
  the statuses of the export are among the four strings of the claim.
\<close>

theorem export_status_strings:
  "(subj_type subject = ''practical'' \<longrightarrow>
      cie (subject_entry taType cieType defaulterType submissions student subject) = ''N/A'') \<and>
   (subj_type subject = ''practical'' \<or> \<not> s_defaulter student \<longrightarrow>
      defaulter (subject_entry taType cieType defaulterType submissions student subject) = ''-'') \<and>
   cie (subject_entry taType cieType defaulterType submissions student subject)
     \<in> {''pending'', ''N/A''} \<union> status ` set submissions \<and>
   ta (subject_entry taType cieType defaulterType submissions student subject)
     \<in> {''pending''} \<union> status ` set submissions \<and>
   defaulter (subject_entry taType cieType defaulterType submissions student subject)
     \<in> {''pending'', ''-''} \<union> status ` set submissions \<and>
   ta_status (student_subject_row taType cieType defaulterType submissions student subject)
     \<in> {''pending''} \<union> status ` set submissions \<and>
   cie_status (student_subject_row taType cieType defaulterType submissions student subject)
     \<in> {''pending''} \<union> status ` set submissions \<and>
   defaulter_status (student_subject_row taType cieType defaulterType submissions student subject)
     \<in> {''pending''} \<union> status ` set submissions \<and>
   (status ` set submissions \<subseteq> {''pending'', ''completed''} \<longrightarrow>
      {cie (subject_entry taType cieType defaulterType submissions student subject),
       ta (subject_entry taType cieType defaulterType submissions student subject),
       defaulter (subject_entry taType cieType defaulterType submissions student subject)}
        \<subseteq> {''pending'', ''completed'', ''N/A'', ''-''})"
proof -
  let ?item = "\<lambda>ty. status_or_pending (first_record submissions (s_id student) (subj_id subject) ty)"
  have r: "?item ty \<in> {''pending''} \<union> status ` set submissions" for ty
    by (rule reported_status)
  have a: "subj_type subject = ''practical'' \<longrightarrow>
      cie (subject_entry taType cieType defaulterType submissions student subject) = ''N/A''"
    by (simp add: export_fields)
  have b: "subj_type subject = ''practical'' \<or> \<not> s_defaulter student \<longrightarrow>
      defaulter (subject_entry taType cieType defaulterType submissions student subject) = ''-''"
    by (auto simp: export_fields)
  have c: "cie (subject_entry taType cieType defaulterType submissions student subject)
     \<in> {''pending'', ''N/A''} \<union> status ` set submissions"
    using r[of cieType] by (auto simp: export_fields)
  have d: "ta (subject_entry taType cieType defaulterType submissions student subject)
     \<in> {''pending''} \<union> status ` set submissions"
    using r[of taType] by (simp add: export_fields)
  have e: "defaulter (subject_entry taType cieType defaulterType submissions student subject)
     \<in> {''pending'', ''-''} \<union> status ` set submissions"
    using r[of defaulterType] by (auto simp: export_fields)
  have f: "ta_status (student_subject_row taType cieType defaulterType submissions student subject)
     \<in> {''pending''} \<union> status ` set submissions"
    using r[of taType] by (simp add: faculty_fields)
  have g: "cie_status (student_subject_row taType cieType defaulterType submissions student subject)
     \<in> {''pending''} \<union> status ` set submissions"
    using r[of cieType] by (simp add: faculty_fields)
  have h: "defaulter_status (student_subject_row taType cieType defaulterType submissions student subject)
     \<in> {''pending''} \<union> status ` set submissions"
    using r[of defaulterType] by (simp add: faculty_fields)
  have i: "status ` set submissions \<subseteq> {''pending'', ''completed''} \<longrightarrow>
      {cie (subject_entry taType cieType defaulterType submissions student subject),
       ta (subject_entry taType cieType defaulterType submissions student subject),
       defaulter (subject_entry taType cieType defaulterType submissions student subject)}
        \<subseteq> {''pending'', ''completed'', ''N/A'', ''-''}"
  proof
    assume sub: "status ` set submissions \<subseteq> {''pending'', ''completed''}"
    have four: "x \<in> {''pending'', ''completed'', ''N/A'', ''-''}"
      if "x \<in> A \<union> status ` set submissions" "A \<subseteq> {''pending'', ''N/A'', ''-''}" for x A
      using that sub by auto
    have "cie (subject_entry taType cieType defaulterType submissions student subject)
            \<in> {''pending'', ''completed'', ''N/A'', ''-''}"
      by (rule four[OF c]) simp
    moreover have "ta (subject_entry taType cieType defaulterType submissions student subject)
            \<in> {''pending'', ''completed'', ''N/A'', ''-''}"
      by (rule four[OF d]) simp
    moreover have "defaulter (subject_entry taType cieType defaulterType submissions student subject)
            \<in> {''pending'', ''completed'', ''N/A'', ''-''}"
      by (rule four[OF e]) simp
    ultimately show "{cie (subject_entry taType cieType defaulterType submissions student subject),
       ta (subject_entry taType cieType defaulterType submissions student subject),
       defaulter (subject_entry taType cieType defaulterType submissions student subject)}
        \<subseteq> {''pending'', ''completed'', ''N/A'', ''-''}"
      by (simp only: insert_subset empty_subsetI simp_thms)
  qed
  show ?thesis by (intro conjI a b c d e f g h i)
qed

theorem export_status_strings_witness:
  "subj_type physics_lab = ''practical'' \<and>
   status ` set [alice_maths_ta] \<subseteq> {''pending'', ''completed''} \<and>
   cie (subject_entry (Some ta_type) (Some cie_type) (Some defaulter_type) [alice_maths_ta]
          bob physics_lab) = ''N/A'' \<and>
   defaulter (subject_entry (Some ta_type) (Some cie_type) (Some defaulter_type) [alice_maths_ta]
          bob physics_lab) = ''-'' \<and>
   ta (subject_entry (Some ta_type) (Some cie_type) (Some defaulter_type) [alice_maths_ta]
          bob physics_lab) \<in> {''pending'', ''completed'', ''N/A'', ''-''}"
proof -
  have h1: "subj_type physics_lab = ''practical''" by (simp add: physics_lab_def)
  have h2: "status ` set [alice_maths_ta] \<subseteq> {''pending'', ''completed''}"
    by (simp add: alice_maths_ta_def)
  note t = export_status_strings[of physics_lab "Some ta_type" "Some cie_type" "Some defaulter_type"
      "[alice_maths_ta]" bob]
  have a: "cie (subject_entry (Some ta_type) (Some cie_type) (Some defaulter_type) [alice_maths_ta]
          bob physics_lab) = ''N/A''"
    using t[THEN conjunct1] h1 by simp
  have b: "defaulter (subject_entry (Some ta_type) (Some cie_type) (Some defaulter_type) [alice_maths_ta]
          bob physics_lab) = ''-''"
    using t[THEN conjunct2, THEN conjunct1] h1 by simp
  have c: "ta (subject_entry (Some ta_type) (Some cie_type) (Some defaulter_type) [alice_maths_ta]
          bob physics_lab) \<in> {''pending'', ''completed'', ''N/A'', ''-''}"
    using t[THEN conjunct2, THEN conjunct2, THEN conjunct2, THEN conjunct2, THEN conjunct2,
            THEN conjunct2, THEN conjunct2, THEN conjunct2] h2
    by (simp only: insert_subset simp_thms)
  show ?thesis by (intro conjI h1 h2 a b c)
qed

text \<open>
  The claim as stated fails on a stored status outside the four strings, which the
  export passes on; and the faculty view reports \<open>pending\<close> where the claim has \<open>N/A\<close>
  (the \<open>cie_status\<close> of a practical subject) and \<open>-\<close> (the \<open>defaulter_status\<close> of a
  student who is not a defaulter).
\<close>

theorem status_strings_counterexample:
  "ta (subject_entry (Some ta_type) (Some cie_type) (Some defaulter_type)
         [alice_maths_ta_submitted] alice maths) \<notin> {''pending'', ''completed'', ''N/A'', ''-''} \<and>
   cie_status (student_subject_row (Some ta_type) (Some cie_type) (Some defaulter_type)
         [] alice physics_lab) = ''pending'' \<and>
   subj_type physics_lab = ''practical'' \<and>
   defaulter_status (student_subject_row (Some ta_type) (Some cie_type) (Some defaulter_type)
         [] alice maths) = ''pending'' \<and>
   \<not> s_defaulter alice"
  by (simp add: subject_entry_def student_subject_row_def find_submission_def
        has_type_def status_or_pending_def alice_maths_ta_submitted_def
        alice_def maths_def physics_lab_def ta_type_def cie_type_def defaulter_type_def Let_def)

section \<open>The roster and the export without a submission type\<close>



















text \<open>
  With the type \<open>TA\<close> in the table, the same records are counted: Alice has one completed
  item of three, Bob two of seven.
\<close>

lemma present_type_is_counted:
  "roster_students (\<lambda>_. None)
     (without_ta_submitted\<lparr>submission_types := [ta_type, cie_type, defaulter_type]\<rparr>) (Some 10) =
   Response 200 True (Data [(alice, Finite 33), (bob, Finite 29)])"
  by code_simp

section \<open>Importing a sheet with duplicates\<close>










section \<open>The percentage and the exact rounding\<close>

text \<open>
  The two roundings of \<open>(completed / total) * 100\<close> move the product by less than
  \<open>2 powi (- 45)\<close>. So \<open>Math.round\<close> of it is the exact percentage rounded half up
  whenever that percentage is not exactly halfway between two integers; the totals 1, 2
  and 3 of the faculty view have no such case that is inexact.
\<close>

lemma double_rounding_error:
  assumes "0 \<le> q" "q \<le> 1"
  shows "\<bar>binary64 (binary64 q * 100) - 100 * q\<bar> < 1 / 2 ^ 45"
proof -
  define a where "a = binary64 q"
  define b where "b = binary64 (a * 100)"
  have a0: "0 \<le> a" unfolding a_def using assms(1) by (rule binary64_nonneg)
  have e1: "\<bar>a - q\<bar> \<le> q / 2 ^ 53" unfolding a_def using assms(1) by (rule binary64_error)
  also have "\<dots> \<le> 1 / 2 ^ 53" using assms(2) by (simp add: divide_right_mono)
  finally have e1': "\<bar>a - q\<bar> \<le> 1 / 2 ^ 53" .
  have "a - q \<le> \<bar>a - q\<bar>" by (rule abs_ge_self)
  with e1' have "a - q \<le> 1 / 2 ^ 53" by (rule order_trans[rotated])
  with assms(2) have a1: "a \<le> 1 + 1 / 2 ^ 53" by linarith
  have "\<bar>b - a * 100\<bar> \<le> a * 100 / 2 ^ 53" unfolding b_def using a0 by (intro binary64_error) simp
  also have "\<dots> \<le> (1 + 1 / 2 ^ 53) * 100 / 2 ^ 53" using a1 by (simp add: divide_right_mono)
  finally have e2: "\<bar>b - a * 100\<bar> \<le> (1 + 1 / 2 ^ 53) * 100 / 2 ^ 53" .
  have "b - 100 * q = (b - a * 100) + 100 * (a - q)" by simp
  then have "\<bar>b - 100 * q\<bar> \<le> \<bar>b - a * 100\<bar> + \<bar>100 * (a - q)\<bar>" by (simp only: abs_triangle_ineq)
  also have "\<bar>100 * (a - q)\<bar> = 100 * \<bar>a - q\<bar>" by (simp only: abs_mult abs_numeral)
  also have "\<bar>b - a * 100\<bar> + 100 * \<bar>a - q\<bar> \<le> (1 + 1 / 2 ^ 53) * 100 / 2 ^ 53 + 100 * (1 / 2 ^ 53)"
    using e2 e1' by (intro add_mono mult_left_mono) simp_all
  also have "\<dots> < 1 / 2 ^ 45" by simp
  finally show ?thesis by (simp add: b_def a_def)
qed

lemma percentage_half_up_unless_tie:
  assumes t0: "0 < t" and ct: "c \<le> t" and small: "t < 2 ^ 44"
    and no_tie: "\<not> (t dvd 200 * c \<and> odd (200 * c div t))"
  shows "rounded_percent c t = round_half_up_percent c t"
proof -
  define q :: rat where "q = of_nat c / of_nat t"
  define n :: int where "n = \<lfloor>100 * q + 1 / 2\<rfloor>"
  define b where "b = binary64 (binary64 q * 100)"
  define T :: int where "T = int t"
  define C :: int where "C = int c"
  define R :: rat where "R = of_int T"
  define N :: rat where "N = of_int n"
  define g :: rat where "g = 1 / (2 * R)"
  define eps :: rat where "eps = 1 / 2 ^ 45"
  have T0: "0 < T" using t0 by (simp add: T_def)
  have R0: "0 < R" using T0 by (simp add: R_def)
  have q0: "0 \<le> q" by (simp add: q_def)
  have q1: "q \<le> 1" using t0 ct by (simp add: q_def)
  have v: "100 * q = 100 * of_int C / R" by (simp add: q_def C_def T_def R_def)
  have err: "\<bar>b - 100 * q\<bar> < eps"
    unfolding b_def eps_def using q0 q1 by (rule double_rounding_error)
  have gap: "eps < g"
  proof -
    have "2 * T < 2 ^ 45" using small by (simp add: T_def)
    then have "(of_int (2 * T) :: rat) < of_int (2 ^ 45)" by (simp only: of_int_less_iff)
    then have "2 * R < 2 ^ 45" by (simp add: R_def)
    then show ?thesis using R0 by (simp add: eps_def g_def field_simps)
  qed
  have lo: "N \<le> 100 * q + 1 / 2" and hi: "100 * q + 1 / 2 < N + 1"
    unfolding n_def N_def by linarith+
  \<comment> \<open>the two bounds, as inequalities of integers\<close>
  have hi_int: "200 * C < (2 * n + 1) * T"
  proof -
    have "100 * of_int C / R < N + 1 / 2" using hi v by simp
    then have "100 * of_int C < (N + 1 / 2) * R" using R0 by (simp add: pos_divide_less_eq)
    then have "200 * of_int C < (2 * N + 1) * R" by (simp add: algebra_simps)
    then have "(of_int (200 * C) :: rat) < of_int ((2 * n + 1) * T)" by (simp add: N_def R_def)
    then show ?thesis by (simp only: of_int_less_iff)
  qed
  have lo_int: "(2 * n - 1) * T \<le> 200 * C"
  proof -
    have "N - 1 / 2 \<le> 100 * of_int C / R" using lo v by simp
    then have "(N - 1 / 2) * R \<le> 100 * of_int C" using R0 by (simp add: pos_le_divide_eq)
    then have "(2 * N - 1) * R \<le> 200 * of_int C" by (simp add: algebra_simps)
    then have "(of_int ((2 * n - 1) * T) :: rat) \<le> of_int (200 * C)" by (simp add: N_def R_def)
    then show ?thesis by (simp only: of_int_le_iff)
  qed
  have ne: "(2 * n - 1) * T \<noteq> 200 * C"
  proof
    assume eq: "(2 * n - 1) * T = 200 * C"
    have C0: "0 \<le> 200 * C" by (simp add: C_def)
    have k0: "0 \<le> 2 * n - 1"
    proof (rule ccontr)
      assume "\<not> 0 \<le> 2 * n - 1"
      then have "2 * n - 1 < 0" by simp
      then have "(2 * n - 1) * T < 0" using T0 by (simp add: mult_neg_pos)
      with eq C0 show False by simp
    qed
    have "int (nat (2 * n - 1) * t) = int (200 * c)"
      using eq k0 by (simp add: T_def C_def)
    then have nat_eq: "nat (2 * n - 1) * t = 200 * c" by (simp only: of_nat_eq_iff)
    have d: "t dvd 200 * c" unfolding nat_eq[symmetric] by (rule dvd_triv_right)
    have "200 * c div t = nat (2 * n - 1)" unfolding nat_eq[symmetric] using t0 by simp
    moreover have "odd (nat (2 * n - 1))" using k0 by (simp add: even_nat_iff)
    ultimately show False using no_tie d by simp
  qed
  have lo_int': "(2 * n - 1) * T + 1 \<le> 200 * C" using lo_int ne by simp
  have hi_int': "200 * C + 1 \<le> (2 * n + 1) * T" using hi_int by simp
  have lo_rat: "N - 1 / 2 + g \<le> 100 * q"
  proof -
    have "(of_int ((2 * n - 1) * T + 1) :: rat) \<le> of_int (200 * C)"
      using lo_int' by (simp only: of_int_le_iff)
    then have "(2 * N - 1) * R + 1 \<le> 200 * of_int C" by (simp add: N_def R_def)
    then have "((2 * N - 1) * R + 1) / (2 * R) \<le> 200 * of_int C / (2 * R)"
      using R0 by (simp only: divide_right_mono less_imp_le zero_less_mult_iff zero_less_numeral simp_thms)
    moreover have "((2 * N - 1) * R + 1) / (2 * R) = N - 1 / 2 + g"
      using R0 by (simp add: g_def field_simps)
    moreover have "200 * of_int C / (2 * R) = 100 * q" using v by simp
    ultimately show ?thesis by simp
  qed
  have hi_rat: "100 * q + g \<le> N + 1 / 2"
  proof -
    have "(of_int (200 * C + 1) :: rat) \<le> of_int ((2 * n + 1) * T)"
      using hi_int' by (simp only: of_int_le_iff)
    then have "200 * of_int C + 1 \<le> (2 * N + 1) * R" by (simp add: N_def R_def)
    then have "(200 * of_int C + 1) / (2 * R) \<le> (2 * N + 1) * R / (2 * R)"
      using R0 by (simp only: divide_right_mono less_imp_le zero_less_mult_iff zero_less_numeral simp_thms)
    moreover have "(200 * of_int C + 1) / (2 * R) = 100 * q + g"
      using R0 v by (simp add: g_def field_simps)
    moreover have "(2 * N + 1) * R / (2 * R) = N + 1 / 2"
      using R0 by (simp add: field_simps)
    ultimately show ?thesis by simp
  qed
  have e1: "- eps < b - 100 * q" and e2: "b - 100 * q < eps"
    using err by (simp_all add: abs_less_iff)
  have "N \<le> b + 1 / 2" using e1 gap lo_rat by linarith
  moreover have "b + 1 / 2 < N + 1" using e2 gap hi_rat by linarith
  ultimately have "\<lfloor>b + 1 / 2\<rfloor> = n" unfolding N_def by (simp add: floor_unique)
  then show ?thesis using t0
    by (simp add: rounded_percent_def round_half_up_percent_def b_def q_def n_def)
qed

lemma percentage_half_up_unless_tie_number:
  assumes "0 < t" and "c \<le> t" and "t < 2 ^ 44"
    and "\<not> (t dvd 200 * c \<and> odd (200 * c div t))"
  shows "submissionPercentage c t = Finite (of_int (round_half_up_percent c t))"
  using percentage_half_up_unless_tie[OF assms] by (simp add: submissionPercentage_Finite)

lemma percentage_examples:
  "submissionPercentage 1 2 = Finite 50" "submissionPercentage 2 3 = Finite 67"
  "submissionPercentage 0 1 = Finite 0" "submissionPercentage 1 1 = Finite 100"
  by code_simp+

lemma small_totals_half_up:
  "rounded_percent 0 1 = round_half_up_percent 0 1"
  "rounded_percent 1 1 = round_half_up_percent 1 1"
  "rounded_percent 0 2 = round_half_up_percent 0 2"
  "rounded_percent 1 2 = round_half_up_percent 1 2"
  "rounded_percent 2 2 = round_half_up_percent 2 2"
  "rounded_percent 0 3 = round_half_up_percent 0 3"
  "rounded_percent 1 3 = round_half_up_percent 1 3"
  "rounded_percent 2 3 = round_half_up_percent 2 3"
  "rounded_percent 3 3 = round_half_up_percent 3 3"
  by code_simp+

lemma row_counts_cases:
  "row_counts r \<in> {(1, 0), (1, 1), (2, 0), (2, 1), (2, 2), (3, 0), (3, 1), (3, 2), (3, 3)}"
  by (simp add: row_counts_def Let_def)

lemma counts_with_percentage:
  "completed_submissions (with_percentage r) = snd (row_counts r)"
  by (simp add: with_percentage_def faculty_row.defs scored_row.defs split: prod.splits)

lemma faculty_percentage_half_up:
  "submission_percentage (with_percentage r) =
     Finite (of_int (round_half_up_percent (completed_submissions (with_percentage r))
                       (total_submissions (with_percentage r))))"
proof -
  obtain t c where tc: "row_counts r = (t, c)" by (cases "row_counts r")
  have "(t, c) \<in> {(1, 0), (1, 1), (2, 0), (2, 1), (2, 2), (3, 0), (3, 1), (3, 2), (3, 3)}"
    using row_counts_cases[of r] tc by simp
  then have "rounded_percent c t = round_half_up_percent c t"
    by (auto simp only: insert_iff empty_iff prod.inject small_totals_half_up)
  then show ?thesis
    by (simp add: percentage_with_percentage counts_with_percentage total_with_percentage tc
          submissionPercentage_Finite)
qed

lemma theory_subject_examples:
  "submission_percentage (with_percentage
     (student_subject_row (Some ta_type) (Some cie_type) (Some defaulter_type)
        [alice_maths_ta] alice maths)) = Finite 50"
  "roster_percentage [maths] [] Map.empty [alice_maths_ta] [ta_type, cie_type, defaulter_type] alice =
     Finite 50"
  by code_simp+

lemma defaulter_theory_subject_examples:
  "submission_percentage (with_percentage
     (student_subject_row (Some ta_type) (Some cie_type) (Some defaulter_type)
        bob_maths_ta_cie bob maths)) = Finite 67"
  "roster_percentage [maths] [] Map.empty bob_maths_ta_cie [ta_type, cie_type, defaulter_type] bob =
     Finite 67"
  by code_simp+

text \<open>
  Claim C2. The percentage is meant to be the exact \<open>100 * completed / total\<close> rounded
  half up, and it is for every row of the faculty view (50 for one of two items, 67 for
  two of three). The roster divides before it multiplies: for a student of twenty theory
  subjects with 23 of the 40 items completed, the quotient \<open>23 / 40\<close> is rounded down to
  binary64, the product is just below 57.5, and the roster answers 57 where the exact
  percentage 57.5 rounds half up to 58.
\<close>

theorem roster_percentage_23_of_40:
  "student_counts (Some ta_type) (Some cie_type) [ta_type, cie_type, defaulter_type] False
     twenty_three_completed twenty_theory = (40, 23) \<and>
   roster_students no_outage class_of_twenty_subjects (Some 10) =
     Response 200 True (Data [(alice, Finite 57)]) \<and>
   round_half_up_percent 23 40 = 58"
  by code_simp

end
